theory Spec2Isabelle
  imports Complex_Main "HOL-Library.Product_Lexorder" "HOL-Library.Word" "HOL-Library.Multiset"
begin

section \<open>Data model\<close>

text \<open>
  The program computes with Python floats. A coordinate is modelled as a real number and
  the arithmetic of the program as exact arithmetic: the rounding of each operation is
  not modelled, and infinities and NaN read from a file are outside the model. Where a
  statement below depends on the range of a float, the range is written out: the
  exceptions and the values at the ends of the range are in \<open>float_pow2\<close>,
  \<open>vector_magnitude_checked\<close>, \<open>normalize_vector_checked\<close> and \<open>packs_float32\<close>. The
  one infinity the source writes itself, the initial value \<^verbatim>\<open>float("inf")\<close> of the running
  minimum, is the value \<open>None\<close> of an option.

  A vector is a triple (the source's lists and tuples of three floats), a facet is the
  list \<^verbatim>\<open>[normal, vertex1, vertex2, vertex3]\<close>, an edge a sorted pair of vertices.
  Triples are compared lexicographically, as Python compares tuples.
\<close>

type_synonym vec = "real \<times> real \<times> real"
type_synonym facet = "vec \<times> vec \<times> vec \<times> vec"
type_synonym edge = "vec \<times> vec"

datatype exn =
  STLCleanerException string
  | ZeroDivisionError
  | IndexError
  | ValueError
  | StructError
  | OverflowError

section \<open>Geometry functions\<close>

text \<open>\<^verbatim>\<open>sum(x * y for x, y in zip(v1, v2))\<close>; the sum starts at 0.\<close>

fun dot_product :: "vec \<Rightarrow> vec \<Rightarrow> real" where
  "dot_product (x1, y1, z1) (x2, y2, z2) = 0 + x1 * x2 + y1 * y2 + z1 * z2"

fun cross_product :: "vec \<Rightarrow> vec \<Rightarrow> vec" where
  "cross_product (x1, y1, z1) (x2, y2, z2) =
     (y1 * z2 - z1 * y2, z1 * x2 - x1 * z2, x1 * y2 - y1 * x2)"

fun vector_magnitude :: "vec \<Rightarrow> real" where
  "vector_magnitude (x, y, z) = sqrt (0 + x ^ 2 + y ^ 2 + z ^ 2)"

fun normalize_vector :: "vec \<Rightarrow> vec" where
  "normalize_vector (x, y, z) =
     (let magnitude = vector_magnitude (x, y, z) in
      if magnitude = 0 then (0, 0, 0)
      else (x / magnitude, y / magnitude, z / magnitude))"

text \<open>
  \<open>vector_magnitude\<close> and \<open>normalize_vector\<close> above are the two functions in exact
  arithmetic, as the rest of the program is modelled. The same two functions follow with
  the range of a Python float and the exceptions written out.

  A float result is infinite when the exact result is at least \<open>2^1024 - 2^970\<close> in
  magnitude (it rounds to infinity), and zero when the exact result is at most
  \<open>2^-1075\<close> in magnitude (it rounds to zero). \<^verbatim>\<open>x ** 2\<close> raises OverflowError where its
  result would be infinite and returns 0.0 where it rounds to zero; an addition that
  overflows returns infinity without an exception, \<^verbatim>\<open>math.sqrt\<close> of infinity is infinity,
  and a finite number divided by infinity is zero. \<^verbatim>\<open>x / magnitude\<close> raises
  ZeroDivisionError when the divisor is zero. The magnitude is a real number, or \<open>None\<close>
  for infinity.
\<close>

definition rounds_to_infinity :: "real \<Rightarrow> bool" where
  "rounds_to_infinity y = (2 ^ 1024 - 2 ^ 970 \<le> \<bar>y\<bar>)"

definition rounds_to_zero :: "real \<Rightarrow> bool" where
  "rounds_to_zero y = (\<bar>y\<bar> \<le> 1 / 2 ^ 1075)"

definition float_pow2 :: "real \<Rightarrow> exn + real" where
  "float_pow2 x =
     (if rounds_to_infinity (x ^ 2) then Inl OverflowError
      else if rounds_to_zero (x ^ 2) then Inr 0
      else Inr (x ^ 2))"

fun vector_magnitude_checked :: "vec \<Rightarrow> exn + real option" where
  "vector_magnitude_checked (x, y, z) =
     (case float_pow2 x of
        Inl e \<Rightarrow> Inl e
      | Inr a \<Rightarrow> (case float_pow2 y of
          Inl e \<Rightarrow> Inl e
        | Inr b \<Rightarrow> (case float_pow2 z of
            Inl e \<Rightarrow> Inl e
          | Inr c \<Rightarrow>
              if rounds_to_infinity (0 + a + b + c) then Inr None
              else Inr (Some (sqrt (0 + a + b + c))))))"

definition truediv :: "real \<Rightarrow> real option \<Rightarrow> exn + real" where
  "truediv a magnitude =
     (case magnitude of
        None \<Rightarrow> Inr 0
      | Some b \<Rightarrow> if b = 0 then Inl ZeroDivisionError else Inr (a / b))"

fun normalize_vector_checked :: "vec \<Rightarrow> exn + vec" where
  "normalize_vector_checked (x, y, z) =
     (case vector_magnitude_checked (x, y, z) of
        Inl e \<Rightarrow> Inl e
      | Inr magnitude \<Rightarrow>
          if magnitude = Some 0 then Inr (0, 0, 0)
          else (case truediv x magnitude of
                  Inl e \<Rightarrow> Inl e
                | Inr a \<Rightarrow> (case truediv y magnitude of
                    Inl e \<Rightarrow> Inl e
                  | Inr b \<Rightarrow> (case truediv z magnitude of
                      Inl e \<Rightarrow> Inl e
                    | Inr c \<Rightarrow> Inr (a, b, c)))))"


text \<open>\<^verbatim>\<open>[v2 - v1 for v1, v2 in zip(vertex1, vertex2)]\<close>: the edge vector from the first
  vertex to the second.\<close>

fun edge_vector :: "vec \<Rightarrow> vec \<Rightarrow> vec" where
  "edge_vector (x1, y1, z1) (x2, y2, z2) = (x2 - x1, y2 - y1, z2 - z1)"

definition recalculate_normal :: "vec \<Rightarrow> vec \<Rightarrow> vec \<Rightarrow> vec" where
  "recalculate_normal vertex1 vertex2 vertex3 =
     (let edge1 = edge_vector vertex1 vertex2;
          edge2 = edge_vector vertex1 vertex3
      in normalize_vector (cross_product edge1 edge2))"

definition ensure_counterclockwise :: "vec \<Rightarrow> vec \<Rightarrow> vec \<Rightarrow> vec \<Rightarrow> vec \<times> vec \<times> vec" where
  "ensure_counterclockwise vertex1 vertex2 vertex3 normal =
     (let edge1 = edge_vector vertex1 vertex2;
          edge2 = edge_vector vertex1 vertex3;
          calculated_normal = cross_product edge1 edge2
      in if dot_product calculated_normal normal < 0
         then (vertex1, vertex3, vertex2)
         else (vertex1, vertex2, vertex3))"

definition is_counterclockwise :: "vec \<Rightarrow> vec \<Rightarrow> vec \<Rightarrow> vec \<Rightarrow> bool" where
  "is_counterclockwise vertex1 vertex2 vertex3 normal =
     (let edge1 = edge_vector vertex1 vertex2;
          edge2 = edge_vector vertex1 vertex3;
          calculated_normal = cross_product edge1 edge2
      in dot_product calculated_normal normal > 0)"

text \<open>The quantity both winding tests compare with zero.\<close>

definition winding :: "vec \<Rightarrow> vec \<Rightarrow> vec \<Rightarrow> vec \<Rightarrow> real" where
  "winding vertex1 vertex2 vertex3 normal =
     dot_product (cross_product (edge_vector vertex1 vertex2) (edge_vector vertex1 vertex3)) normal"

section \<open>Manifold repair\<close>

text \<open>\<^verbatim>\<open>tuple(sorted((a, b)))\<close>: the sort is stable, so the pair is swapped only when the
  second vertex is smaller.\<close>

definition sorted_pair :: "vec \<Rightarrow> vec \<Rightarrow> edge" where
  "sorted_pair a b = (if b < a then (b, a) else (a, b))"

fun facet_edges :: "facet \<Rightarrow> edge list" where
  "facet_edges (normal, vertex1, vertex2, vertex3) =
     [sorted_pair vertex1 vertex2, sorted_pair vertex2 vertex3, sorted_pair vertex3 vertex1]"

text \<open>
  A Python dict keeps its keys in insertion order, and Step 2 iterates over it, so the
  dictionaries are association lists with unique keys: a new key goes to the end.
  \<open>dict_append\<close> is \<^verbatim>\<open>if edge not in d: d[edge] = []\<close> followed by
  \<^verbatim>\<open>d[edge].append(facet)\<close>.
\<close>

fun dict_append :: "('k \<times> 'v list) list \<Rightarrow> 'k \<Rightarrow> 'v \<Rightarrow> ('k \<times> 'v list) list" where
  "dict_append [] k v = [(k, [v])]"
| "dict_append ((k', vs) # d) k v =
     (if k' = k then (k', vs @ [v]) # d else (k', vs) # dict_append d k v)"

definition track_edges :: "facet list \<Rightarrow> (edge \<times> facet list) list" where
  "track_edges facets =
     foldl (\<lambda>edge_to_facets facet.
              foldl (\<lambda>d edge. dict_append d edge facet) edge_to_facets (facet_edges facet))
       [] facets"

definition find_open_edges :: "(edge \<times> facet list) list \<Rightarrow> edge list" where
  "find_open_edges edge_to_facets =
     map fst (filter (\<lambda>(edge, associated_facets). length associated_facets = 1) edge_to_facets)"

text \<open>The inner loop of Step 3: the first other open edge that holds \<open>v2\<close> gives the third
  vertex, and the loop breaks.\<close>

fun close_edge :: "edge \<Rightarrow> edge list \<Rightarrow> facet option" where
  "close_edge edge [] = None"
| "close_edge edge (other_edge # rest) =
     (let v1 = fst edge; v2 = snd edge in
      if (v2 = fst other_edge \<or> v2 = snd other_edge) \<and> edge \<noteq> other_edge
      then (let v3 = (if snd other_edge = v2 then fst other_edge else snd other_edge);
                new_normal = recalculate_normal v1 v2 v3
            in Some (new_normal, v1, v2, v3))
      else close_edge edge rest)"

definition close_open_edges :: "edge list \<Rightarrow> facet list" where
  "close_open_edges open_edges =
     concat (map (\<lambda>edge. case close_edge edge open_edges of None \<Rightarrow> [] | Some f \<Rightarrow> [f])
               open_edges)"

text \<open>
  Step 4 builds a Python set of the facets and lists it. The order in which a set is
  listed is not specified by Python; the model lists each distinct facet once, in the
  order \<open>remdups\<close> gives.
\<close>

definition make_model_manifold :: "facet list \<Rightarrow> facet list" where
  "make_model_manifold facets =
     (let edge_to_facets = track_edges facets;
          open_edges = find_open_edges edge_to_facets;
          fixed_facets = close_open_edges open_edges
      in remdups (facets @ fixed_facets))"

fun count_edge :: "('k \<times> nat) list \<Rightarrow> 'k \<Rightarrow> ('k \<times> nat) list" where
  "count_edge [] k = [(k, 1)]"
| "count_edge ((k', c) # d) k =
     (if k' = k then (k', c + 1) # d else (k', c) # count_edge d k)"

definition count_edges :: "facet list \<Rightarrow> (edge \<times> nat) list" where
  "count_edges facets =
     foldl (\<lambda>edge_usage facet. foldl count_edge edge_usage (facet_edges facet)) [] facets"

definition is_model_manifold :: "facet list \<Rightarrow> bool" where
  "is_model_manifold facets =
     (let edge_usage = count_edges facets;
          non_manifold_edges = filter (\<lambda>(edge, count). count \<noteq> 2) edge_usage
      in length non_manifold_edges = 0)"

text \<open>
  A tetrahedron with the corners \<open>(0,0,0)\<close>, \<open>(1,0,0)\<close>, \<open>(0,1,0)\<close> and \<open>(0,0,2)\<close>, as a
  reader hands it to the repair (normals recomputed), closed and with its bottom facet
  removed.
\<close>

definition read_facet :: "vec \<Rightarrow> vec \<Rightarrow> vec \<Rightarrow> facet" where
  "read_facet vertex1 vertex2 vertex3 =
     (recalculate_normal vertex1 vertex2 vertex3, vertex1, vertex2, vertex3)"

definition tetrahedron_sides :: "facet list" where
  "tetrahedron_sides =
     [read_facet (0, 0, 0) (1, 0, 0) (0, 0, 2),
      read_facet (1, 0, 0) (0, 1, 0) (0, 0, 2),
      read_facet (0, 1, 0) (0, 0, 0) (0, 0, 2)]"

definition tetrahedron_closed :: "facet list" where
  "tetrahedron_closed = read_facet (0, 0, 0) (0, 1, 0) (1, 0, 0) # tetrahedron_sides"

section \<open>Settings, diagnostics and files\<close>

text \<open>The module's global options, set from the command line.\<close>

record settings =
  force_repositioning :: bool
  new_min_pos :: vec
  ignore_endsolid_name :: bool
  indent_spaces :: int

definition default_settings :: settings where
  "default_settings =
     \<lparr>force_repositioning = False, new_min_pos = (1 / 100, 1 / 100, 1 / 100),
      ignore_endsolid_name = False, indent_spaces = 1\<rparr>"

text \<open>Decimal digits of a natural number, as \<^verbatim>\<open>str\<close> and an f-string print it.\<close>

definition digit_char :: "nat \<Rightarrow> char" where
  "digit_char d = ''0123456789'' ! d"

function str_nat :: "nat \<Rightarrow> string" where
  "str_nat n = (if n < 10 then [digit_char n] else str_nat (n div 10) @ [digit_char (n mod 10)])"
  by pat_completeness auto
termination
  by (relation "measure (\<lambda>n. n)") auto

declare str_nat.simps [simp del]

definition quote :: char where
  "quote = CHR 0x27"

text \<open>Python's whitespace among the ASCII characters (\<^verbatim>\<open>str.isspace\<close>, which
  \<^verbatim>\<open>strip\<close>, \<^verbatim>\<open>split\<close> and the pattern \<^verbatim>\<open>\s\<close> share). Text is modelled as ASCII.\<close>

definition is_space :: "char \<Rightarrow> bool" where
  "is_space c = (c \<in> set [CHR 0x09, CHR 0x0A, CHR 0x0B, CHR 0x0C, CHR 0x0D,
                           CHR 0x1C, CHR 0x1D, CHR 0x1E, CHR 0x1F, CHR 0x20])"

definition lstrip :: "string \<Rightarrow> string" where
  "lstrip s = dropWhile is_space s"

definition strip :: "string \<Rightarrow> string" where
  "strip s = rev (dropWhile is_space (rev (dropWhile is_space s)))"

text \<open>
  The two error handlers with type ERROR: they count the error, build the message and
  raise. With \<^verbatim>\<open>got\<close> empty or absent (falsy) the short message is used. The
  exception is the value returned; the error counter, which nothing reads after a raise,
  is not kept.
\<close>

definition error_message :: "string \<Rightarrow> nat \<Rightarrow> string \<Rightarrow> string \<Rightarrow> string" where
  "error_message place n expected got =
     (if got \<noteq> []
      then ''Error on '' @ place @ '' '' @ str_nat n @ '': Expected '' @ [quote] @ expected
           @ [quote] @ '' but got '' @ [quote] @ strip got @ [quote] @ ''.''
      else ''Error on '' @ place @ '' '' @ str_nat n @ '': '' @ expected @ ''.'')"

definition handle_error_with_file_pos :: "nat \<Rightarrow> string \<Rightarrow> string \<Rightarrow> exn" where
  "handle_error_with_file_pos pos expected got =
     STLCleanerException (error_message ''position'' pos expected got)"

text \<open>
  A file system maps paths to contents. A written binary file is kept as its fields (the
  80-byte header, the count field and the 50-byte facet records: normal, three vertices,
  attribute byte count), a written text file as its lines.
\<close>

type_synonym byte = "8 word"

type_synonym facet_record = "vec \<times> vec \<times> vec \<times> vec \<times> nat"

record binary_stl =
  file_header :: "byte list"
  file_triangle_count :: nat
  file_triangles :: "facet_record list"

datatype file_content = BinaryFile binary_stl | TextFile "string list"

type_synonym file_system = "string \<Rightarrow> file_content option"

section \<open>Format sniffing\<close>

text \<open>\<^verbatim>\<open>struct.unpack('<I', b)[0]\<close>: four bytes, little-endian; any other length raises
  \<^verbatim>\<open>struct.error\<close>.\<close>

definition unpack_uint32 :: "byte list \<Rightarrow> exn + nat" where
  "unpack_uint32 b =
     (case b of
        [b0, b1, b2, b3] \<Rightarrow>
          Inr (unat b0 + 256 * unat b1 + 65536 * unat b2 + 16777216 * unat b3)
      | _ \<Rightarrow> Inl StructError)"

text \<open>\<^verbatim>\<open>file.read(n)\<close> on the rest of the file: the bytes read, and what is left.\<close>

definition file_read :: "nat \<Rightarrow> byte list \<Rightarrow> byte list \<times> byte list" where
  "file_read n rest = (take n rest, drop n rest)"

definition is_binary_stl :: "byte list \<Rightarrow> bool" where
  "is_binary_stl file =
     (let file_size = length file;
          (skipped, rest) = file_read 80 file;
          (count_bytes, rest') = file_read 4 rest
      in case unpack_uint32 count_bytes of
           Inl e \<Rightarrow> False
         | Inr triangle_count \<Rightarrow> 80 + 4 + 50 * triangle_count = file_size)"

text \<open>The count a file of at least 84 bytes declares: the little-endian number in its
  bytes 80 to 83.\<close>

definition declared_count :: "byte list \<Rightarrow> nat" where
  "declared_count file =
     unat (file ! 80) + 256 * unat (file ! 81) + 65536 * unat (file ! 82)
     + 16777216 * unat (file ! 83)"

text \<open>The bytes of an ASCII string.\<close>

definition ascii_bytes :: "string \<Rightarrow> byte list" where
  "ascii_bytes s = map of_char s"

text \<open>
  An ASCII STL file with an empty scene and 8421504565 blank lines between its two lines:
  \<^verbatim>\<open>solid a\<close>, the blank lines, \<^verbatim>\<open>endsolid a\<close>, each line ended by a newline. It has
  \<open>84 + 50 * 168430090\<close> bytes, and its bytes 80 to 83 are newlines, the number
  \<open>0x0A0A0A0A = 168430090\<close>.
\<close>

definition padded_ascii_file :: "byte list" where
  "padded_ascii_file =
     ascii_bytes ''solid a'' @ [0x0A] @ replicate 8421504565 0x0A
     @ ascii_bytes ''endsolid a'' @ [0x0A]"

section \<open>Repositioning and writing a facet\<close>

text \<open>\<^verbatim>\<open>v[j]\<close> for \<open>j\<close> in \<^verbatim>\<open>range(3)\<close>.\<close>

fun coord :: "vec \<Rightarrow> nat \<Rightarrow> real" where
  "coord (x, y, z) j = (if j = 0 then x else if j = 1 then y else z)"

text \<open>
  The running minimum of one axis starts at \<^verbatim>\<open>float("inf")\<close>, the value \<open>None\<close>; every
  real number is smaller than it.
\<close>

definition below_minimum :: "real \<Rightarrow> real option \<Rightarrow> bool" where
  "below_minimum v m = (case m of None \<Rightarrow> True | Some x \<Rightarrow> v < x)"

text \<open>
  The offset of one axis. While no vertex has been read the minimum is still infinite:
  the source then computes minus infinity under force-repos and 0 otherwise. There is no
  facet in that case (lemmas \<open>binary_loop_no_minimum\<close> and \<open>ascii_loop_no_minimum\<close>), so
  that offset is added to no vertex; the model has 0 there.
\<close>

definition adapt_axis :: "settings \<Rightarrow> real option \<Rightarrow> real \<Rightarrow> real" where
  "adapt_axis cfg m threshold =
     (case m of
        None \<Rightarrow> 0
      | Some x \<Rightarrow> if force_repositioning cfg \<or> x < threshold then - x + threshold else 0)"

definition adapt_vertex :: "settings \<Rightarrow> real option list \<Rightarrow> vec" where
  "adapt_vertex cfg min_vertex =
     (adapt_axis cfg (min_vertex ! 0) (coord (new_min_pos cfg) 0),
      adapt_axis cfg (min_vertex ! 1) (coord (new_min_pos cfg) 1),
      adapt_axis cfg (min_vertex ! 2) (coord (new_min_pos cfg) 2))"

fun translate :: "vec \<Rightarrow> vec \<Rightarrow> vec" where
  "translate (x, y, z) (ax, ay, az) = (x + ax, y + ay, z + az)"

text \<open>The body of both writing loops: the vertices moved by the offset and put in the
  order \<open>ensure_counterclockwise\<close> returns, with the facet's stored normal.\<close>

fun write_facet :: "vec \<Rightarrow> facet \<Rightarrow> facet" where
  "write_facet adapt (normal, vertex1, vertex2, vertex3) =
     (case ensure_counterclockwise (translate vertex1 adapt) (translate vertex2 adapt)
             (translate vertex3 adapt) normal of
        (fixed1, fixed2, fixed3) \<Rightarrow> (normal, fixed1, fixed2, fixed3))"

section \<open>The binary codec\<close>

record reader_state =
  cur_min_vertex :: "real option list"
  cur_facets :: "facet list"
  warning_count :: nat

definition init_reader :: reader_state where
  "init_reader = \<lparr>cur_min_vertex = [None, None, None], cur_facets = [], warning_count = 0\<rparr>"

definition warn :: "'a reader_state_scheme \<Rightarrow> 'a reader_state_scheme" where
  "warn st = st\<lparr>warning_count := warning_count st + 1\<rparr>"

text \<open>
  The minimum tracking of the binary reader, as written: the outer loop runs over \<open>j\<close>,
  picks vertex \<open>j\<close>, and the inner loop, whose variable is \<open>i\<close>, compares coordinate \<open>j\<close>
  of that vertex with the minimum of axis \<open>j\<close>. The inner loop assigns \<open>i\<close>, which is
  also the variable of the loop over the triangles; the pair carries the minimum and the
  value of \<open>i\<close>.
\<close>

definition track_binary_minimum ::
    "vec \<Rightarrow> vec \<Rightarrow> vec \<Rightarrow> real option list \<times> nat \<Rightarrow> real option list \<times> nat" where
  "track_binary_minimum vertex1 vertex2 vertex3 start =
     foldl (\<lambda>(mv, i) j.
              let vertices = [vertex1, vertex2, vertex3];
                  vertex = vertices ! j
              in foldl (\<lambda>(mv, i) i'.
                          (if below_minimum (coord vertex j) (mv ! j)
                           then mv[j := Some (coord vertex j)] else mv, i'))
                   (mv, i) [0, 1, 2])
       start [0, 1, 2]"

fun coords :: "vec \<Rightarrow> real list" where
  "coords (x, y, z) = [x, y, z]"

text \<open>One pass of the loop over the triangles: \<open>i\<close> is the loop's index, the record is
  what the five \<^verbatim>\<open>struct.unpack\<close> calls read.\<close>

fun binary_step :: "nat \<Rightarrow> facet_record \<Rightarrow> reader_state \<Rightarrow> exn + reader_state" where
  "binary_step i (parsed_normal, vertex1, vertex2, vertex3, attr_byte_count) st =
     (case track_binary_minimum vertex1 vertex2 vertex3 (cur_min_vertex st, i) of
        (mv, i) \<Rightarrow>
          let normal = recalculate_normal vertex1 vertex2 vertex3;
              st1 = st\<lparr>cur_min_vertex := mv,
                       cur_facets := cur_facets st @ [(normal, vertex1, vertex2, vertex3)]\<rparr>;
              pos = 84 + i * 50;
              st2 = (if \<exists>c \<in> set (coords vertex1 @ coords vertex2 @ coords vertex3). c < 0
                     then warn st1 else st1);
              st3 = (if \<not> is_counterclockwise vertex1 vertex2 vertex3 normal
                     then warn st2 else st2)
          in if attr_byte_count \<noteq> 0
             then Inl (handle_error_with_file_pos pos
                         (''Attribute byte count should be '' @ [quote] @ ''0'' @ [quote]
                          @ '', but got '' @ [quote] @ str_nat attr_byte_count @ [quote]) [])
             else Inr st3)"

text \<open>\<^verbatim>\<open>for i in range(triangle_count)\<close>, from index \<open>i\<close> with \<open>n\<close> passes to go, over the
  records not yet read. Reading past the end of the file raises \<^verbatim>\<open>struct.error\<close>.\<close>

fun binary_loop :: "nat \<Rightarrow> nat \<Rightarrow> facet_record list \<Rightarrow> reader_state \<Rightarrow> exn + reader_state" where
  "binary_loop i 0 rest st = Inr st"
| "binary_loop i (Suc n) [] st = Inl StructError"
| "binary_loop i (Suc n) (t # rest) st =
     (case binary_step i t st of
        Inl e \<Rightarrow> Inl e
      | Inr st' \<Rightarrow> binary_loop (Suc i) n rest st')"

text \<open>What the binary writer puts into the output file, once the reader has finished,
  when every value it writes fits a 32-bit float (\<open>binary_write\<close> below has the other case).\<close>

definition binary_output :: "settings \<Rightarrow> binary_stl \<Rightarrow> reader_state \<Rightarrow> binary_stl" where
  "binary_output cfg file st =
     (let repaired = make_model_manifold (cur_facets st);
          adapt = adapt_vertex cfg (cur_min_vertex st)
      in \<lparr>file_header = file_header file, file_triangle_count = file_triangle_count file,
          file_triangles = map (\<lambda>facet. case write_facet adapt facet of
                                     (normal, fixed1, fixed2, fixed3) \<Rightarrow>
                                       (normal, fixed1, fixed2, fixed3, 0))
                        repaired\<rparr>)"

text \<open>
  \<open>clean_binary_stl_file\<close>: the input file's fields, the output path and the file system.
  The result is the file system afterwards, and the exception raised or the number of
  warnings.
\<close>

definition clean_binary_stl_file ::
    "settings \<Rightarrow> binary_stl \<Rightarrow> string \<Rightarrow> file_system \<Rightarrow> file_system \<times> (exn + nat)" where
  "clean_binary_stl_file cfg file output_file_path fs =
     (case binary_loop 0 (file_triangle_count file) (file_triangles file) init_reader of
        Inl e \<Rightarrow> (fs, Inl e)
      | Inr st \<Rightarrow>
          (fs(output_file_path \<mapsto> BinaryFile (binary_output cfg file st)),
           Inr (warning_count st)))"

text \<open>
  \<open>binary_output\<close> is what the file holds when every value was written.
  \<^verbatim>\<open>struct.pack("<3f", ...)\<close> raises OverflowError when one of the three values does not
  fit a 32-bit float: a value of magnitude \<open>2^128 - 2^103\<close> or more rounds to infinity
  there. The output file is open by then, and the header, the count field and the
  vectors written before stay in it. \<open>write_records\<close> is the writing loop with the
  exception written out: the records written in full and, when a value did not pack,
  the vectors of the record under way that were written before it.
\<close>

definition packs_float32 :: "real \<Rightarrow> bool" where
  "packs_float32 x = (\<bar>x\<bar> < 2 ^ 128 - 2 ^ 103)"

fun vec_packs :: "vec \<Rightarrow> bool" where
  "vec_packs (x, y, z) = (packs_float32 x \<and> packs_float32 y \<and> packs_float32 z)"

fun write_records :: "facet_record list \<Rightarrow> facet_record list \<times> vec list option" where
  "write_records [] = ([], None)"
| "write_records ((normal, fixed1, fixed2, fixed3, attr) # rest) =
     (if list_all vec_packs [normal, fixed1, fixed2, fixed3]
      then (case write_records rest of
              (written, broken) \<Rightarrow> ((normal, fixed1, fixed2, fixed3, attr) # written, broken))
      else ([], Some (takeWhile vec_packs [normal, fixed1, fixed2, fixed3])))"

text \<open>
  The \<^verbatim>\<open>with open(...)\<close> block of the binary cleaner: the file it leaves (header, count
  field and the records written in full) and \<open>None\<close> when the block ended, or the
  vectors of the broken record when OverflowError was raised.
\<close>

definition binary_write :: "settings \<Rightarrow> binary_stl \<Rightarrow> reader_state \<Rightarrow> binary_stl \<times> vec list option" where
  "binary_write cfg file st =
     (case write_records (file_triangles (binary_output cfg file st)) of
        (written, broken) \<Rightarrow>
          (\<lparr>file_header = file_header file, file_triangle_count = file_triangle_count file,
            file_triangles = written\<rparr>,
           broken))"

section \<open>Line functions\<close>

text \<open>The ASCII reader adds the line cursor to the reader's state. The list of lines
  is set once and never changed, so it is an argument.\<close>

record ascii_state = reader_state +
  line_index :: nat

definition init_ascii :: ascii_state where
  "init_ascii =
     \<lparr>cur_min_vertex = [None, None, None], cur_facets = [], warning_count = 0, line_index = 0\<rparr>"

definition handle_error_with_line_index :: "ascii_state \<Rightarrow> string \<Rightarrow> string \<Rightarrow> exn" where
  "handle_error_with_line_index st expected got =
     STLCleanerException (error_message ''line'' (line_index st + 1) expected got)"

text \<open>\<^verbatim>\<open>lines[line_index]\<close>; an index past the end raises IndexError.\<close>

definition get_current_line :: "string list \<Rightarrow> ascii_state \<Rightarrow> exn + string" where
  "get_current_line lines st =
     (if line_index st < length lines then Inr (lines ! line_index st) else Inl IndexError)"

function skip_empty_lines :: "string list \<Rightarrow> ascii_state \<Rightarrow> ascii_state" where
  "skip_empty_lines lines st =
     (if length lines > line_index st + 1 \<and> strip (lines ! line_index st) = []
      then skip_empty_lines lines ((warn st)\<lparr>line_index := line_index st + 1\<rparr>)
      else st)"
  by pat_completeness auto
termination
  by (relation "measure (\<lambda>(lines, st). length lines - line_index st)") (auto simp: warn_def)

declare skip_empty_lines.simps [simp del]

definition init_line :: "string list \<Rightarrow> ascii_state \<Rightarrow> ascii_state" where
  "init_line lines st = skip_empty_lines lines (st\<lparr>line_index := 0\<rparr>)"

definition go_to_next_line :: "string list \<Rightarrow> ascii_state \<Rightarrow> ascii_state" where
  "go_to_next_line lines st = skip_empty_lines lines (st\<lparr>line_index := line_index st + 1\<rparr>)"

section \<open>Text: patterns, splitting and numbers\<close>

text \<open>\<^verbatim>\<open>re.sub(r'\s+', ' ', s)\<close>: every run of whitespace becomes one space.\<close>

fun collapse_ws :: "string \<Rightarrow> string" where
  "collapse_ws [] = []"
| "collapse_ws [c] = (if is_space c then [CHR 0x20] else [c])"
| "collapse_ws (c # d # cs) =
     (if is_space c
      then (if is_space d then collapse_ws (d # cs) else CHR 0x20 # collapse_ws (d # cs))
      else c # collapse_ws (d # cs))"

definition read_lines :: "string list \<Rightarrow> string list" where
  "read_lines raw = map (\<lambda>line. collapse_ws (strip line)) raw"

definition startswith :: "string \<Rightarrow> string \<Rightarrow> bool" where
  "startswith s prefix = (take (length prefix) s = prefix)"

text \<open>In a pattern, \<^verbatim>\<open>$\<close> matches at the end of the string and before a newline that ends
  it: a pattern that ends in \<^verbatim>\<open>$\<close> is matched against the string without that newline.\<close>

definition chomp :: "string \<Rightarrow> string" where
  "chomp s = (if s \<noteq> [] \<and> last s = CHR 0x0A then butlast s else s)"

text \<open>\<^verbatim>\<open>^solid [^\n]+$\<close> and \<^verbatim>\<open>^endsolid [^\n]+$\<close>: the keyword, a space, and at least one
  more character, none a newline.\<close>

definition search_name :: "string \<Rightarrow> string \<Rightarrow> bool" where
  "search_name keyword line =
     (let s = chomp line; rest = drop (length keyword + 1) s
      in startswith s (keyword @ [CHR 0x20]) \<and> rest \<noteq> [] \<and> CHR 0x0A \<notin> set rest)"

definition is_digit :: "char \<Rightarrow> bool" where
  "is_digit c = (c \<in> set ''0123456789'')"

text \<open>
  The number pattern \<^verbatim>\<open>-?\d*(\.\d+)?([Ee][+-]?\d+)?\<close>, matched against a whole token.
  Every part starts with a character no later part accepts, so the match is the greedy
  one: each function drops its part when it is there and leaves the string otherwise.
\<close>

definition skip_minus :: "string \<Rightarrow> string" where
  "skip_minus s = (case s of [] \<Rightarrow> [] | c # r \<Rightarrow> if c = CHR ''-'' then r else s)"

definition skip_fraction :: "string \<Rightarrow> string" where
  "skip_fraction s =
     (case s of
        c # d # r \<Rightarrow> if c = CHR ''.'' \<and> is_digit d then dropWhile is_digit r else s
      | _ \<Rightarrow> s)"

definition skip_sign :: "string \<Rightarrow> string" where
  "skip_sign s =
     (case s of [] \<Rightarrow> [] | c # r \<Rightarrow> if c = CHR ''+'' \<or> c = CHR ''-'' then r else s)"

definition skip_exponent :: "string \<Rightarrow> string" where
  "skip_exponent s =
     (case s of
        [] \<Rightarrow> []
      | c # r \<Rightarrow>
          if c = CHR ''e'' \<or> c = CHR ''E''
          then (case skip_sign r of
                  [] \<Rightarrow> s
                | d # r' \<Rightarrow> if is_digit d then dropWhile is_digit r' else s)
          else s)"

definition match_float :: "string \<Rightarrow> bool" where
  "match_float tok = (skip_exponent (skip_fraction (dropWhile is_digit (skip_minus tok))) = [])"

text \<open>\<^verbatim>\<open>s.split(' ')\<close>: the fields between single spaces, empty ones kept.\<close>

fun split_char :: "char \<Rightarrow> string \<Rightarrow> string list" where
  "split_char sep [] = [[]]"
| "split_char sep (c # cs) =
     (if c = sep then [] # split_char sep cs
      else (case split_char sep cs of [] \<Rightarrow> [[c]] | t # ts \<Rightarrow> (c # t) # ts))"

text \<open>
  \<^verbatim>\<open>^facet normal N N N$\<close> and \<^verbatim>\<open>^vertex N N N$\<close> with \<open>N\<close> the number pattern. No number
  holds a space, so the line matches when, after the keyword and a space, it has exactly
  three fields between single spaces and each is a number.
\<close>

definition search_numbers :: "string \<Rightarrow> string \<Rightarrow> bool" where
  "search_numbers keyword line =
     (let s = chomp line
      in startswith s (keyword @ [CHR 0x20]) \<and>
         (case split_char (CHR 0x20) (drop (length keyword + 1) s) of
            [t1, t2, t3] \<Rightarrow> match_float t1 \<and> match_float t2 \<and> match_float t3
          | _ \<Rightarrow> False))"

text \<open>\<^verbatim>\<open>s.split()\<close>: the words between runs of whitespace.\<close>

fun split_words :: "string \<Rightarrow> string \<Rightarrow> string list" where
  "split_words word [] = (if word = [] then [] else [word])"
| "split_words word (c # cs) =
     (if is_space c
      then (if word = [] then split_words [] cs else word # split_words [] cs)
      else split_words (word @ [c]) cs)"

definition split :: "string \<Rightarrow> string list" where
  "split s = split_words [] s"

text \<open>
  \<^verbatim>\<open>float(tok)\<close> for the tokens the number pattern admits, the only ones the reader
  converts: the decimal value, exactly. A token without a digit before the exponent
  (the pattern admits the empty token, \<^verbatim>\<open>-\<close>, \<^verbatim>\<open>e5\<close>, ...) raises ValueError.
\<close>

definition digit_val :: "char \<Rightarrow> nat" where
  "digit_val c = of_char c - 48"

definition digits_val :: "string \<Rightarrow> nat" where
  "digits_val ds = foldl (\<lambda>a c. 10 * a + digit_val c) 0 ds"

definition py_float :: "string \<Rightarrow> exn + real" where
  "py_float tok =
     (let s1 = skip_minus tok;
          int_digits = takeWhile is_digit s1;
          s2 = dropWhile is_digit s1;
          s3 = skip_fraction s2;
          frac_digits = (if s3 = s2 then [] else takeWhile is_digit (tl s2));
          s4 = skip_exponent s3;
          exp_negative = (s4 \<noteq> s3 \<and> startswith (tl s3) ''-'');
          exp_digits = (if s4 = s3 then [] else takeWhile is_digit (skip_sign (tl s3)));
          mantissa = real (digits_val int_digits)
                     + real (digits_val frac_digits) / 10 ^ length frac_digits;
          scaled = (if exp_negative then mantissa / 10 ^ digits_val exp_digits
                    else mantissa * 10 ^ digits_val exp_digits)
      in if s4 = [] then
           (if int_digits = [] \<and> frac_digits = [] then Inl ValueError
            else Inr (if startswith tok ''-'' then - scaled else scaled))
         else Inl ValueError)"

fun floats :: "string list \<Rightarrow> exn + real list" where
  "floats [] = Inr []"
| "floats (tok # toks) =
     (case py_float tok of
        Inl e \<Rightarrow> Inl e
      | Inr x \<Rightarrow> (case floats toks of Inl e \<Rightarrow> Inl e | Inr xs \<Rightarrow> Inr (x # xs)))"

section \<open>The ASCII codec\<close>

text \<open>A line that must equal a keyword line: \<^verbatim>\<open>outer loop\<close>, \<^verbatim>\<open>endloop\<close>, \<^verbatim>\<open>endfacet\<close>.\<close>

definition expect_line :: "string list \<Rightarrow> string \<Rightarrow> ascii_state \<Rightarrow> exn + ascii_state" where
  "expect_line lines expected st =
     (case get_current_line lines st of
        Inl e \<Rightarrow> Inl e
      | Inr line \<Rightarrow>
          if expected \<noteq> line then Inl (handle_error_with_line_index st expected line)
          else Inr (go_to_next_line lines st))"

definition read_solid :: "string list \<Rightarrow> ascii_state \<Rightarrow> exn + string \<times> ascii_state" where
  "read_solid lines st =
     (case get_current_line lines st of
        Inl e \<Rightarrow> Inl e
      | Inr line \<Rightarrow>
          if \<not> startswith line ''solid''
          then Inl (handle_error_with_line_index st ''solid'' line)
          else if \<not> search_name ''solid'' line
          then Inr ([], go_to_next_line lines (warn st))
          else Inr (lstrip (drop 6 line), go_to_next_line lines st))"

text \<open>One vertex line. The converted numbers are a list; the loop over \<^verbatim>\<open>range(3)\<close>
  that tracks the minimum reads its first three elements and raises IndexError when
  there are fewer.\<close>

definition track_ascii_minimum :: "vec \<Rightarrow> real option list \<Rightarrow> real option list" where
  "track_ascii_minimum vertex mv =
     foldl (\<lambda>mv j. if below_minimum (coord vertex j) (mv ! j)
                    then mv[j := Some (coord vertex j)] else mv)
       mv [0, 1, 2]"

definition read_vertex :: "string list \<Rightarrow> ascii_state \<Rightarrow> exn + vec \<times> ascii_state" where
  "read_vertex lines st =
     (case get_current_line lines st of
        Inl e \<Rightarrow> Inl e
      | Inr line \<Rightarrow>
          if \<not> search_numbers ''vertex'' line
          then Inl (handle_error_with_line_index st
                      ''vertex <unsigned float> <unsigned float> <unsigned float>'' line)
          else (case floats (tl (split line)) of
                  Inl e \<Rightarrow> Inl e
                | Inr vertex \<Rightarrow>
                    (case vertex of
                       [x, y, z] \<Rightarrow>
                         let st1 = go_to_next_line lines st;
                             st2 = st1\<lparr>cur_min_vertex :=
                                        track_ascii_minimum (x, y, z) (cur_min_vertex st1)\<rparr>;
                             st3 = (if \<exists>c \<in> set vertex. c < 0 then warn st2 else st2)
                         in Inr ((x, y, z), st3)
                     | _ \<Rightarrow> Inl IndexError)))"

text \<open>One pass of the loop over the facets.\<close>

definition read_facet_block :: "string list \<Rightarrow> ascii_state \<Rightarrow> exn + ascii_state" where
  "read_facet_block lines st =
     (case get_current_line lines st of
        Inl e \<Rightarrow> Inl e
      | Inr line \<Rightarrow>
          if \<not> search_numbers ''facet normal'' line
          then Inl (handle_error_with_line_index st ''facet normal <float> <float> <float>'' line)
          else (case floats (drop 2 (split line)) of
                  Inl e \<Rightarrow> Inl e
                | Inr parsed_normal \<Rightarrow>
          (case expect_line lines ''outer loop'' (go_to_next_line lines st) of
             Inl e \<Rightarrow> Inl e
           | Inr st1 \<Rightarrow>
          (case read_vertex lines st1 of
             Inl e \<Rightarrow> Inl e
           | Inr (vertex1, st2) \<Rightarrow>
          (case read_vertex lines st2 of
             Inl e \<Rightarrow> Inl e
           | Inr (vertex2, st3) \<Rightarrow>
          (case read_vertex lines st3 of
             Inl e \<Rightarrow> Inl e
           | Inr (vertex3, st4) \<Rightarrow>
               let normal = recalculate_normal vertex1 vertex2 vertex3;
                   st5 = st4\<lparr>cur_facets := cur_facets st4 @ [(normal, vertex1, vertex2, vertex3)]\<rparr>;
                   st6 = (if \<not> is_counterclockwise vertex1 vertex2 vertex3 normal
                          then warn st5 else st5)
               in (case expect_line lines ''endloop'' st6 of
                     Inl e \<Rightarrow> Inl e
                   | Inr st7 \<Rightarrow> expect_line lines ''endfacet'' st7)))))))"

fun ascii_loop :: "nat \<Rightarrow> string list \<Rightarrow> ascii_state \<Rightarrow> exn + ascii_state" where
  "ascii_loop 0 lines st = Inr st"
| "ascii_loop (Suc n) lines st =
     (case read_facet_block lines st of
        Inl e \<Rightarrow> Inl e
      | Inr st' \<Rightarrow> ascii_loop n lines st')"

text \<open>\<^verbatim>\<open>(len([line for line in lines if line.strip()]) - 2) // 7\<close>, an integer that may be
  negative; \<^verbatim>\<open>range\<close> of a negative number is empty.\<close>

definition total_facet_count :: "string list \<Rightarrow> nat" where
  "total_facet_count lines =
     nat ((int (length (filter (\<lambda>line. strip line \<noteq> []) lines)) - 2) div 7)"

text \<open>The \<^verbatim>\<open>endsolid\<close> line: the state after the warning, and the name taken from it.\<close>

definition read_endsolid :: "string list \<Rightarrow> string \<Rightarrow> ascii_state \<Rightarrow> exn + string \<times> ascii_state" where
  "read_endsolid lines solid_name st =
     (case get_current_line lines st of
        Inl e \<Rightarrow> Inl e
      | Inr line \<Rightarrow>
          if \<not> startswith line ''endsolid''
          then Inl (handle_error_with_line_index st ''endsolid'' line)
          else let st1 = (if solid_name \<noteq> [] \<and> ''endsolid '' @ solid_name \<noteq> line
                          then warn st else st);
                   endsolid_name = (if \<not> search_name ''endsolid'' line then []
                                    else lstrip (drop 6 line))
               in Inr (endsolid_name, st1))"

definition resolve_name :: "settings \<Rightarrow> string \<Rightarrow> string \<Rightarrow> string" where
  "resolve_name cfg solid_name endsolid_name =
     (let name = solid_name;
          name = (if \<not> ignore_endsolid_name cfg
                  then (let name = (if name = [] then endsolid_name else name)
                        in if solid_name \<noteq> [] \<and> endsolid_name \<noteq> [] \<and> solid_name \<noteq> endsolid_name
                           then solid_name @ '' | '' @ endsolid_name else name)
                  else name)
      in if name = [] then ''model'' else name)"

text \<open>
  The reading part of \<open>clean_ascii_stl_file\<close>, on the normalised lines: the two names and
  the state when the writer starts.
\<close>

definition read_ascii :: "string list \<Rightarrow> exn + string \<times> string \<times> ascii_state" where
  "read_ascii lines =
     (case read_solid lines (init_line lines init_ascii) of
        Inl e \<Rightarrow> Inl e
      | Inr (solid_name, st) \<Rightarrow>
          (case ascii_loop (total_facet_count lines) lines st of
             Inl e \<Rightarrow> Inl e
           | Inr st1 \<Rightarrow>
               (case read_endsolid lines solid_name st1 of
                  Inl e \<Rightarrow> Inl e
                | Inr (endsolid_name, st2) \<Rightarrow>
                    Inr (solid_name, endsolid_name, go_to_next_line lines st2))))"

text \<open>The facets the ASCII writer prints: the repaired facets, moved and put in order.\<close>

definition ascii_written :: "settings \<Rightarrow> ascii_state \<Rightarrow> facet list" where
  "ascii_written cfg st =
     map (write_facet (adapt_vertex cfg (cur_min_vertex st))) (make_model_manifold (cur_facets st))"

text \<open>
  The lines of one facet. How an f-string prints a number is Python's own and is the
  parameter \<open>float_str\<close> (the components of the zero normal are the integer 0 in the
  source; they are printed through the same parameter).
\<close>

fun vec_str :: "(real \<Rightarrow> string) \<Rightarrow> vec \<Rightarrow> string" where
  "vec_str float_str (x, y, z) = float_str x @ '' '' @ float_str y @ '' '' @ float_str z"

fun facet_lines :: "(real \<Rightarrow> string) \<Rightarrow> string \<Rightarrow> facet \<Rightarrow> string list" where
  "facet_lines float_str INDENT (normal, fixed1, fixed2, fixed3) =
     [INDENT @ ''facet normal '' @ vec_str float_str normal,
      INDENT @ INDENT @ ''outer loop'',
      INDENT @ INDENT @ INDENT @ ''vertex '' @ vec_str float_str fixed1,
      INDENT @ INDENT @ INDENT @ ''vertex '' @ vec_str float_str fixed2,
      INDENT @ INDENT @ INDENT @ ''vertex '' @ vec_str float_str fixed3,
      INDENT @ INDENT @ ''endloop'',
      INDENT @ ''endfacet'']"

definition fixed_lines :: "(real \<Rightarrow> string) \<Rightarrow> settings \<Rightarrow> string \<Rightarrow> facet list \<Rightarrow> string list" where
  "fixed_lines float_str cfg name written =
     (let INDENT = replicate (nat (indent_spaces cfg)) (CHR 0x20)
      in [''solid '' @ name] @ concat (map (facet_lines float_str INDENT) written)
         @ [''endsolid '' @ name])"

text \<open>
  \<open>clean_ascii_stl_file\<close>: the lines \<^verbatim>\<open>readlines\<close> returns, the output path and the file
  system. The written file is kept as its lines, each without the newline that ends it.
\<close>

definition clean_ascii_stl_file ::
    "(real \<Rightarrow> string) \<Rightarrow> settings \<Rightarrow> string list \<Rightarrow> string \<Rightarrow> file_system
       \<Rightarrow> file_system \<times> (exn + nat)" where
  "clean_ascii_stl_file float_str cfg raw_lines output_file_path fs =
     (case read_ascii (read_lines raw_lines) of
        Inl e \<Rightarrow> (fs, Inl e)
      | Inr (solid_name, endsolid_name, st) \<Rightarrow>
          (fs(output_file_path \<mapsto>
                TextFile (fixed_lines float_str cfg
                            (resolve_name cfg solid_name endsolid_name)
                            (ascii_written cfg st))),
           Inr (warning_count st)))"

section \<open>Facets with a recomputed normal, and sample inputs\<close>

text \<open>A facet whose stored normal is the normal recomputed from its own vertices.\<close>

definition recalculated :: "facet \<Rightarrow> bool" where
  "recalculated f = (case f of (n, a, b, c) \<Rightarrow> n = recalculate_normal a b c)"





text \<open>The vertices of a facet, and of a list of facets.\<close>

fun facet_vertices :: "facet \<Rightarrow> vec list" where
  "facet_vertices (normal, vertex1, vertex2, vertex3) = [vertex1, vertex2, vertex3]"

definition all_vertices :: "facet list \<Rightarrow> vec list" where
  "all_vertices fs = concat (map facet_vertices fs)"

text \<open>
  The running minimum \<open>mv\<close> is the minimum of the vertices \<open>vs\<close>: on each axis it is
  still infinite when there is no vertex, and otherwise it is the smallest coordinate of
  the vertices on that axis.
\<close>

definition tracked :: "real option list \<Rightarrow> vec list \<Rightarrow> bool" where
  "tracked mv vs =
     (length mv = 3 \<and>
      (\<forall>j < 3. case mv ! j of
                  None \<Rightarrow> vs = []
                | Some m \<Rightarrow> (\<forall>v \<in> set vs. m \<le> coord v j) \<and> (\<exists>v \<in> set vs. coord v j = m)))"

text \<open>A binary file of one triangle whose attribute byte count is 5.\<close>

definition attr5_file :: binary_stl where
  "attr5_file =
     \<lparr>file_header = replicate 80 0, file_triangle_count = 1,
      file_triangles = [((0, 0, 1), (0, 0, 0), (1, 0, 0), (0, 1, 0), 5)]\<rparr>"

text \<open>A binary file of one triangle whose smallest \<open>x\<close> is on its second vertex.\<close>

definition skewed_file :: binary_stl where
  "skewed_file =
     \<lparr>file_header = replicate 80 0, file_triangle_count = 1,
      file_triangles = [((0, 0, 1), (1, 0, 0), (- 5, 1, 0), (0, 0, 0), 0)]\<rparr>"

text \<open>The reader's state after that file.\<close>

definition skewed_state :: reader_state where
  "skewed_state =
     \<lparr>cur_min_vertex = [Some 1, Some 1, Some 0],
      cur_facets = [((0, 0, 1), (1, 0, 0), (- 5, 1, 0), (0, 0, 0))],
      warning_count = 1\<rparr>"

text \<open>A binary file of four triangles: one triangle three times, and another one. The
  reader's state after it.\<close>

definition balanced_file :: binary_stl where
  "balanced_file =
     \<lparr>file_header = replicate 80 0, file_triangle_count = 4,
      file_triangles =
        [((0, 0, 1), (0, 0, 5), (1, 0, 5), (0, 1, 5), 0),
         ((0, 0, 1), (0, 0, 5), (1, 0, 5), (0, 1, 5), 0),
         ((0, 0, 1), (0, 0, 5), (1, 0, 5), (0, 1, 5), 0),
         ((0, 0, 1), (- 1, - 1, 0), (1, - 1, 0), (1, 1, 0), 0)]\<rparr>"

definition balanced_state :: reader_state where
  "balanced_state =
     \<lparr>cur_min_vertex = [Some (- 1), Some (- 1), Some 0],
      cur_facets =
        [((0, 0, 1), (0, 0, 5), (1, 0, 5), (0, 1, 5)),
         ((0, 0, 1), (0, 0, 5), (1, 0, 5), (0, 1, 5)),
         ((0, 0, 1), (0, 0, 5), (1, 0, 5), (0, 1, 5)),
         ((0, 0, 1), (- 1, - 1, 0), (1, - 1, 0), (1, 1, 0))],
      warning_count = 1\<rparr>"



text \<open>A binary file of one triangle that spans more than a 32-bit float holds once it is
  repositioned: its first two vertices have the \<open>x\<close> coordinates \<open>- 2^127\<close> and \<open>2^127\<close>.
  The reader's state after it.\<close>

definition wide_file :: binary_stl where
  "wide_file =
     \<lparr>file_header = replicate 80 0, file_triangle_count = 1,
      file_triangles =
        [((0, 0, 0), (- 170141183460469231731687303715884105728, 0, 0), (170141183460469231731687303715884105728, 0, 0), (0, 0, 0), 0)]\<rparr>"

definition wide_state :: reader_state where
  "wide_state =
     \<lparr>cur_min_vertex = [Some (- 170141183460469231731687303715884105728), Some 0, Some 0],
      cur_facets = [((0, 0, 0), (- 170141183460469231731687303715884105728, 0, 0), (170141183460469231731687303715884105728, 0, 0), (0, 0, 0))],
      warning_count = 2\<rparr>"

text \<open>The ASCII file of the specification's scenario, as \<^verbatim>\<open>readlines\<close> returns it, and
  the settings of \<^verbatim>\<open>--min-pos=0,0,0\<close>.\<close>

definition scenario_lines :: "string list" where
  "scenario_lines =
     [''solid cube'' @ [CHR 0x0A],
      ''facet normal 0 0 1'' @ [CHR 0x0A],
      ''outer loop'' @ [CHR 0x0A],
      ''vertex -1 -1 0'' @ [CHR 0x0A],
      ''vertex 1 -1 0'' @ [CHR 0x0A],
      ''vertex 1 1 0'' @ [CHR 0x0A],
      ''endloop'' @ [CHR 0x0A],
      ''endfacet'' @ [CHR 0x0A],
      ''endsolid cube'' @ [CHR 0x0A]]"

definition scenario_settings :: settings where
  "scenario_settings = default_settings\<lparr>new_min_pos := (0, 0, 0)\<rparr>"

text \<open>The ASCII reader's state after the scenario's file.\<close>

definition scenario_state :: ascii_state where
  "scenario_state =
     \<lparr>cur_min_vertex = [Some (- 1), Some (- 1), Some 0],
      cur_facets = [((0, 0, 1), (- 1, - 1, 0), (1, - 1, 0), (1, 1, 0))],
      warning_count = 2, line_index = 9\<rparr>"

text \<open>A file whose \<^verbatim>\<open>solid\<close> line has no name, the settings of
  \<^verbatim>\<open>--ignore-endsolid-name\<close>, and a file whose \<^verbatim>\<open>endsolid\<close> line has no name.\<close>

definition nameless_lines :: "string list" where
  "nameless_lines = [''solid'' @ [CHR 0x0A], ''endsolid cube'' @ [CHR 0x0A]]"

definition ignoring_settings :: settings where
  "ignoring_settings = default_settings\<lparr>ignore_endsolid_name := True\<rparr>"

definition named_once_lines :: "string list" where
  "named_once_lines = [''solid cube'' @ [CHR 0x0A], ''endsolid'' @ [CHR 0x0A]]"

text \<open>The ASCII reader's state after either of the two files: no facet, one warning.\<close>

definition empty_scene_state :: ascii_state where
  "empty_scene_state =
     \<lparr>cur_min_vertex = [None, None, None], cur_facets = [], warning_count = 1, line_index = 2\<rparr>"

text \<open>A file whose first line is not a \<^verbatim>\<open>solid\<close> line.\<close>

definition headless_lines :: "string list" where
  "headless_lines = [''cube'' @ [CHR 0x0A], ''endsolid cube'' @ [CHR 0x0A]]"

section \<open>Properties of the geometry functions\<close>


lemma ensure_counterclockwise_winding:
  "ensure_counterclockwise v1 v2 v3 n =
     (if winding v1 v2 v3 n < 0 then (v1, v3, v2) else (v1, v2, v3))"
  by (simp add: ensure_counterclockwise_def winding_def Let_def)

lemma is_counterclockwise_winding:
  "is_counterclockwise v1 v2 v3 n \<longleftrightarrow> 0 < winding v1 v2 v3 n"
  by (simp add: is_counterclockwise_def winding_def Let_def)



lemma vector_magnitude_normalize:
  assumes "vector_magnitude v \<noteq> 0"
  shows "vector_magnitude (normalize_vector v) = 1"
proof -
  obtain x y z where v: "v = (x, y, z)"
    by (cases v) auto
  define s where "s = x ^ 2 + y ^ 2 + z ^ 2"
  have s0: "0 \<le> s"
    by (simp add: s_def)
  from assms have sn: "s \<noteq> 0"
    by (simp add: v s_def)
  have "(x / sqrt s) ^ 2 + (y / sqrt s) ^ 2 + (z / sqrt s) ^ 2 = (x ^ 2 + y ^ 2 + z ^ 2) / s"
    using s0 by (simp add: power_divide add_divide_distrib)
  also have "\<dots> = 1"
    using sn by (simp add: s_def)
  finally have "sqrt ((x / sqrt s) ^ 2 + (y / sqrt s) ^ 2 + (z / sqrt s) ^ 2) = 1"
    by simp
  with sn show ?thesis
    by (simp add: v s_def Let_def)
qed








text \<open>
  A vector so short that its squares round to zero is returned as the zero vector,
  although it is not zero.
\<close>

lemma normalize_vector_underflow:
  "normalize_vector_checked (1 / 10 ^ 200, 0, 0) = Inr (0, 0, 0)"
proof -
  have "rounds_to_zero ((1 / 10 ^ 200) ^ 2)"
    by (simp add: rounds_to_zero_def power_divide)
  moreover have "\<not> rounds_to_infinity ((1 / 10 ^ 200) ^ 2)"
    by (simp add: rounds_to_infinity_def power_divide)
  ultimately have "float_pow2 (1 / 10 ^ 200) = Inr 0"
    by (simp add: float_pow2_def)
  moreover have "float_pow2 0 = Inr 0"
    by (simp add: float_pow2_def rounds_to_infinity_def rounds_to_zero_def)
  moreover have "\<not> rounds_to_infinity 0"
    by (simp add: rounds_to_infinity_def)
  ultimately show ?thesis
    by simp
qed

text \<open>
  Three components of \<open>10^154\<close> have squares inside the range and a sum outside it: the
  magnitude is infinite, it is not zero, and the result is the zero vector.
\<close>

lemma normalize_vector_infinite_magnitude:
  "vector_magnitude_checked (10 ^ 154, 10 ^ 154, 10 ^ 154) = Inr None
   \<and> normalize_vector_checked (10 ^ 154, 10 ^ 154, 10 ^ 154) = Inr (0, 0, 0)"
proof -
  have "\<not> rounds_to_infinity ((10 ^ 154) ^ 2)"
    by (simp add: rounds_to_infinity_def)
  moreover have "\<not> rounds_to_zero ((10 ^ 154) ^ 2)"
    by (simp add: rounds_to_zero_def)
  ultimately have square: "float_pow2 (10 ^ 154) = Inr ((10 ^ 154) ^ 2)"
    by (simp add: float_pow2_def)
  have "rounds_to_infinity (0 + (10 ^ 154) ^ 2 + (10 ^ 154) ^ 2 + (10 ^ 154) ^ 2)"
    by (simp add: rounds_to_infinity_def)
  with square have "vector_magnitude_checked (10 ^ 154, 10 ^ 154, 10 ^ 154) = Inr None"
    by simp
  then show ?thesis
    by (simp add: truediv_def del: vector_magnitude_checked.simps)
qed

section \<open>Evaluating the model\<close>

lemmas reader_eval = init_reader_def track_binary_minimum_def below_minimum_def
  handle_error_with_file_pos_def error_message_def str_nat.simps digit_char_def Let_def
  recalculate_normal_def is_counterclockwise_def warn_def

lemmas repair_eval = make_model_manifold_def track_edges_def sorted_pair_def
  find_open_edges_def close_open_edges_def recalculate_normal_def Let_def

lemmas writer_eval = adapt_vertex_def adapt_axis_def default_settings_def scenario_settings_def
  ensure_counterclockwise_def

lemmas text_eval = read_lines_def strip_def lstrip_def is_space_def startswith_def chomp_def
  search_name_def is_digit_def skip_minus_def skip_fraction_def skip_sign_def skip_exponent_def
  match_float_def search_numbers_def split_def digit_val_def digits_val_def py_float_def

lemmas ascii_eval = init_ascii_def handle_error_with_line_index_def get_current_line_def
  skip_empty_lines.simps init_line_def go_to_next_line_def expect_line_def read_solid_def
  track_ascii_minimum_def read_vertex_def read_facet_block_def total_facet_count_def
  read_endsolid_def read_ascii_def warn_def below_minimum_def error_message_def
  str_nat.simps digit_char_def recalculate_normal_def is_counterclockwise_def Let_def

section \<open>The binary reader\<close>

lemma track_binary_minimum_index:
  "snd (track_binary_minimum v1 v2 v3 (mv, i)) = 2"
  by (simp add: track_binary_minimum_def)

text \<open>Whatever the index of the triangle, the position in the attribute error is 184.\<close>

lemma binary_step_position:
  assumes "attr_byte_count \<noteq> 0"
  shows "binary_step i (parsed_normal, vertex1, vertex2, vertex3, attr_byte_count) st =
     Inl (STLCleanerException
       (''Error on position 184: Attribute byte count should be '' @ [quote] @ ''0'' @ [quote]
        @ '', but got '' @ [quote] @ str_nat attr_byte_count @ [quote] @ ''.''))"
proof -
  obtain mv k where t: "track_binary_minimum vertex1 vertex2 vertex3 (cur_min_vertex st, i) = (mv, k)"
    by (cases "track_binary_minimum vertex1 vertex2 vertex3 (cur_min_vertex st, i)") auto
  with track_binary_minimum_index [of vertex1 vertex2 vertex3 "cur_min_vertex st" i]
  have k: "k = 2"
    by simp
  have "str_nat 184 = ''184''"
    by (simp add: str_nat.simps digit_char_def)
  with assms t k show ?thesis
    by (simp add: Let_def handle_error_with_file_pos_def error_message_def)
qed

lemma attr5_clean:
  "clean_binary_stl_file default_settings attr5_file ''out.stl'' Map.empty =
     (Map.empty,
      Inl (STLCleanerException
        (''Error on position 184: Attribute byte count should be '' @ [quote] @ ''0'' @ [quote]
         @ '', but got '' @ [quote] @ ''5'' @ [quote] @ ''.'')))"
  by (simp add: attr5_file_def clean_binary_stl_file_def reader_eval)

text \<open>
  C3. The claim: a nonzero attribute byte count on triangle \<open>i\<close> aborts with the position
  \<open>84 + i * 50\<close>, so triangle 0 with the count 5 reports position 84. The code: the loop
  that tracks the minimum assigns the triangle loop's variable \<open>i\<close>, which is 2 when the
  position is computed, so the position reported is \<open>84 + 2 * 50 = 184\<close> for every
  triangle. The theorem runs the file of one triangle with the count 5.
\<close>

theorem attribute_error_position:
  "clean_binary_stl_file default_settings attr5_file ''out.stl'' Map.empty =
     (Map.empty,
      Inl (STLCleanerException
        (''Error on position 184: Attribute byte count should be '' @ [quote] @ ''0'' @ [quote]
         @ '', but got '' @ [quote] @ ''5'' @ [quote] @ ''.'')))"
  by (rule attr5_clean)

lemma binary_step_facets:
  assumes "binary_step i t st = Inr st'"
  shows "\<exists>pn a b c attr. t = (pn, a, b, c, attr)
           \<and> cur_facets st' = cur_facets st @ [(recalculate_normal a b c, a, b, c)]"
proof -
  obtain pn a b c attr where t: "t = (pn, a, b, c, attr)"
    by (cases t) auto
  obtain mv k where m: "track_binary_minimum a b c (cur_min_vertex st, i) = (mv, k)"
    by (cases "track_binary_minimum a b c (cur_min_vertex st, i)") auto
  from assms have "cur_facets st' = cur_facets st @ [(recalculate_normal a b c, a, b, c)]"
    by (auto simp: t m Let_def warn_def split: if_splits)
  with t show ?thesis
    by blast
qed

lemma binary_step_recalculated:
  assumes "binary_step i t st = Inr st'" and "\<forall>f \<in> set (cur_facets st). recalculated f"
  shows "\<forall>f \<in> set (cur_facets st'). recalculated f"
  using binary_step_facets [OF assms(1)] assms(2)
  by (auto simp: recalculated_def)

lemma binary_loop_recalculated:
  "binary_loop i n ts st = Inr st' \<Longrightarrow> \<forall>f \<in> set (cur_facets st). recalculated f
     \<Longrightarrow> \<forall>f \<in> set (cur_facets st'). recalculated f"
proof (induction i n ts st rule: binary_loop.induct)
  case (1 i rest st)
  then show ?case by simp
next
  case (2 i n st)
  then show ?case by simp
next
  case (3 i n t rest st)
  then show ?case
    by (auto split: sum.splits dest: binary_step_recalculated)
qed

lemma binary_loop_length:
  "binary_loop i n ts st = Inr st' \<Longrightarrow> length (cur_facets st') = length (cur_facets st) + n"
proof (induction i n ts st rule: binary_loop.induct)
  case (1 i rest st)
  then show ?case by simp
next
  case (2 i n st)
  then show ?case by simp
next
  case (3 i n t rest st)
  then show ?case
    by (auto split: sum.splits dest: binary_step_facets)
qed

lemma skewed_read:
  "binary_loop 0 (file_triangle_count skewed_file) (file_triangles skewed_file) init_reader =
     Inr skewed_state"
  by (simp add: skewed_file_def skewed_state_def reader_eval)

lemma skewed_fixed:
  "close_open_edges (find_open_edges (track_edges [((0, 0, 1), (1, 0, 0), (- 5, 1, 0), (0, 0, 0))])) =
     [((0, 0, - 1), (- 5, 1, 0), (1, 0, 0), (0, 0, 0)),
      ((0, 0, 1), (- 5, 1, 0), (0, 0, 0), (1, 0, 0)),
      ((0, 0, 1), (0, 0, 0), (1, 0, 0), (- 5, 1, 0))]"
  by (simp add: repair_eval)

lemma skewed_repaired:
  "make_model_manifold (cur_facets skewed_state) =
     [((0, 0, 1), (1, 0, 0), (- 5, 1, 0), (0, 0, 0)),
      ((0, 0, - 1), (- 5, 1, 0), (1, 0, 0), (0, 0, 0)),
      ((0, 0, 1), (- 5, 1, 0), (0, 0, 0), (1, 0, 0)),
      ((0, 0, 1), (0, 0, 0), (1, 0, 0), (- 5, 1, 0))]"
  by (simp add: skewed_state_def make_model_manifold_def Let_def skewed_fixed)

lemma skewed_adapt:
  "adapt_vertex default_settings (cur_min_vertex skewed_state) = (0, 0, 1 / 100)"
  by (simp add: skewed_state_def writer_eval)

lemma skewed_output:
  "binary_output default_settings skewed_file skewed_state =
     \<lparr>file_header = replicate 80 0, file_triangle_count = 1,
      file_triangles =
        [((0, 0, 1), (1, 0, 1 / 100), (- 5, 1, 1 / 100), (0, 0, 1 / 100), 0),
         ((0, 0, - 1), (- 5, 1, 1 / 100), (1, 0, 1 / 100), (0, 0, 1 / 100), 0),
         ((0, 0, 1), (- 5, 1, 1 / 100), (0, 0, 1 / 100), (1, 0, 1 / 100), 0),
         ((0, 0, 1), (0, 0, 1 / 100), (1, 0, 1 / 100), (- 5, 1, 1 / 100), 0)]\<rparr>"
  by (simp add: binary_output_def skewed_repaired skewed_adapt ensure_counterclockwise_def)
     (simp add: skewed_file_def)

lemma skewed_clean:
  "clean_binary_stl_file default_settings skewed_file ''out.stl'' Map.empty =
     ([''out.stl'' \<mapsto> BinaryFile (binary_output default_settings skewed_file skewed_state)],
      Inr 1)"
  by (simp add: clean_binary_stl_file_def skewed_read) (simp add: skewed_state_def)

text \<open>
  C1. The claim: on every axis the smallest coordinate of the written model is at least
  the threshold whenever force-repos is on or the input's smallest coordinate on that
  axis was below the threshold. The ASCII reader compares every coordinate of every
  vertex with the running minimum of its axis (lemma \<open>ascii_repositioning\<close> below proves
  the claim for the ASCII path). The binary reader compares only the
  \<open>x\<close> of the first vertex, the \<open>y\<close> of the second and the \<open>z\<close> of the third. For the
  triangle \<open>(1,0,0)\<close>, \<open>(-5,1,0)\<close>, \<open>(0,0,0)\<close> and the default threshold \<open>0.01\<close> it finds
  the minimum 1 on the \<open>x\<close> axis, applies no offset there, and writes the \<open>x\<close> coordinate
  \<open>-5\<close>, below the threshold.
\<close>

theorem binary_minimum_misses_vertices:
  "clean_binary_stl_file default_settings skewed_file ''out.stl'' Map.empty =
     ([''out.stl'' \<mapsto> BinaryFile
         \<lparr>file_header = replicate 80 0, file_triangle_count = 1,
          file_triangles =
            [((0, 0, 1), (1, 0, 1 / 100), (- 5, 1, 1 / 100), (0, 0, 1 / 100), 0),
             ((0, 0, - 1), (- 5, 1, 1 / 100), (1, 0, 1 / 100), (0, 0, 1 / 100), 0),
             ((0, 0, 1), (- 5, 1, 1 / 100), (0, 0, 1 / 100), (1, 0, 1 / 100), 0),
             ((0, 0, 1), (0, 0, 1 / 100), (1, 0, 1 / 100), (- 5, 1, 1 / 100), 0)]\<rparr>],
      Inr 1)
   \<and> coord (- 5, 1, 1 / 100) 0 < coord (new_min_pos default_settings) 0"
proof -
  have "coord (- 5, 1, 1 / 100) 0 < coord (new_min_pos default_settings) 0"
    by (simp add: default_settings_def)
  then show ?thesis
    by (simp only: skewed_clean skewed_output)
qed

lemma write_records_complete:
  "snd (write_records rs) = None \<Longrightarrow> fst (write_records rs) = rs"
proof (induction rs)
  case Nil
  then show ?case by simp
next
  case (Cons r rs)
  obtain n a b c attr where r: "r = (n, a, b, c, attr)"
    by (cases r) auto
  from Cons show ?case
    unfolding r by (cases "write_records rs") (auto split: if_splits)
qed

lemma binary_write_complete:
  assumes "snd (binary_write cfg stl st) = None"
  shows "fst (binary_write cfg stl st) = binary_output cfg stl st"
proof -
  obtain written broken where
    w: "write_records (file_triangles (binary_output cfg stl st)) = (written, broken)"
    by (cases "write_records (file_triangles (binary_output cfg stl st))") auto
  with assms have "broken = None"
    by (simp add: binary_write_def)
  with w write_records_complete [of "file_triangles (binary_output cfg stl st)"]
  have "written = file_triangles (binary_output cfg stl st)"
    by simp
  with w show ?thesis
    by (simp add: binary_write_def) (simp add: binary_output_def Let_def)
qed

lemma skewed_write:
  "binary_write default_settings skewed_file skewed_state =
     (binary_output default_settings skewed_file skewed_state, None)"
  by (simp add: binary_write_def skewed_output packs_float32_def) (simp add: skewed_file_def)

text \<open>
  C6 (as amended). When the binary reader succeeds and every value written fits a 32-bit float, the
  written file carries the input's header and the input's count field, which is the
  number of facets read, while the number of facet records written is the number of
  facets after the repair. When the repair changes the number of facets, the count field
  differs from the number of records.
\<close>

theorem binary_count_field_is_echoed:
  assumes "binary_loop 0 (file_triangle_count stl) (file_triangles stl) init_reader = Inr st"
    and "snd (binary_write cfg stl st) = None"
  shows "clean_binary_stl_file cfg stl path fs =
           (fs(path \<mapsto> BinaryFile (fst (binary_write cfg stl st))), Inr (warning_count st))
         \<and> file_header (fst (binary_write cfg stl st)) = file_header stl
         \<and> file_triangle_count (fst (binary_write cfg stl st)) = file_triangle_count stl
         \<and> file_triangle_count stl = length (cur_facets st)
         \<and> length (file_triangles (fst (binary_write cfg stl st)))
             = length (make_model_manifold (cur_facets st))
         \<and> (length (make_model_manifold (cur_facets st)) \<noteq> length (cur_facets st)
              \<longrightarrow> file_triangle_count (fst (binary_write cfg stl st))
                   \<noteq> length (file_triangles (fst (binary_write cfg stl st))))"
proof -
  from binary_loop_length [OF assms(1)] have "length (cur_facets st) = file_triangle_count stl"
    by (simp add: init_reader_def)
  moreover have "clean_binary_stl_file cfg stl path fs =
      (fs(path \<mapsto> BinaryFile (binary_output cfg stl st)), Inr (warning_count st))"
    by (simp add: clean_binary_stl_file_def assms(1))
  moreover note binary_write_complete [OF assms(2)]
  ultimately show ?thesis
    by (simp add: binary_output_def Let_def)
qed

theorem binary_count_field_is_echoed_witness:
  "binary_loop 0 (file_triangle_count skewed_file) (file_triangles skewed_file) init_reader
     = Inr skewed_state
   \<and> snd (binary_write default_settings skewed_file skewed_state) = None
   \<and> file_triangle_count (fst (binary_write default_settings skewed_file skewed_state)) = 1
   \<and> length (cur_facets skewed_state) = 1
   \<and> length (make_model_manifold (cur_facets skewed_state)) = 4
   \<and> length (file_triangles (fst (binary_write default_settings skewed_file skewed_state))) = 4"
proof -
  have complete: "snd (binary_write default_settings skewed_file skewed_state) = None"
    by (simp add: skewed_write)
  note echoed =
    binary_count_field_is_echoed [OF skewed_read complete, of "''out.stl''" Map.empty]
  from echoed have count:
    "file_triangle_count (fst (binary_write default_settings skewed_file skewed_state))
       = file_triangle_count skewed_file"
    by blast
  from echoed have records:
    "length (file_triangles (fst (binary_write default_settings skewed_file skewed_state)))
       = length (make_model_manifold (cur_facets skewed_state))"
    by blast
  have "file_triangle_count skewed_file = 1"
    by (simp add: skewed_file_def)
  moreover have "length (cur_facets skewed_state) = 1"
    by (simp add: skewed_state_def)
  moreover have "length (make_model_manifold (cur_facets skewed_state)) = 4"
    by (simp add: skewed_repaired)
  ultimately show ?thesis
    using skewed_read complete count records by simp
qed

text \<open>
  Without the condition on the values the writer stops with OverflowError. The file
  with the \<open>x\<close> coordinates \<open>- 2^127\<close> and \<open>2^127\<close> is moved by \<open>2^127 + 1/100\<close>; the
  second vertex does not fit a 32-bit float any more, and the output file is left with
  the header, the count field, one normal and one vertex.
\<close>

lemma wide_read:
  "binary_loop 0 (file_triangle_count wide_file) (file_triangles wide_file) init_reader =
     Inr wide_state"
  by (simp add: wide_file_def wide_state_def reader_eval)

lemma wide_fixed:
  "close_open_edges (find_open_edges (track_edges
      [((0, 0, 0), (- 170141183460469231731687303715884105728, 0, 0), (170141183460469231731687303715884105728, 0, 0), (0, 0, 0))])) =
     [((0, 0, 0), (- 170141183460469231731687303715884105728, 0, 0), (170141183460469231731687303715884105728, 0, 0), (0, 0, 0)),
      ((0, 0, 0), (0, 0, 0), (170141183460469231731687303715884105728, 0, 0), (- 170141183460469231731687303715884105728, 0, 0)),
      ((0, 0, 0), (- 170141183460469231731687303715884105728, 0, 0), (0, 0, 0), (170141183460469231731687303715884105728, 0, 0))]"
  by (simp add: repair_eval)

lemma wide_repaired:
  "make_model_manifold (cur_facets wide_state) =
     [((0, 0, 0), (- 170141183460469231731687303715884105728, 0, 0), (170141183460469231731687303715884105728, 0, 0), (0, 0, 0)),
      ((0, 0, 0), (0, 0, 0), (170141183460469231731687303715884105728, 0, 0), (- 170141183460469231731687303715884105728, 0, 0)),
      ((0, 0, 0), (- 170141183460469231731687303715884105728, 0, 0), (0, 0, 0), (170141183460469231731687303715884105728, 0, 0))]"
  by (simp add: wide_state_def make_model_manifold_def Let_def wide_fixed)

lemma wide_adapt:
  "adapt_vertex default_settings (cur_min_vertex wide_state) = (170141183460469231731687303715884105728 + 1 / 100, 1 / 100, 1 / 100)"
  by (simp add: wide_state_def writer_eval)

lemma wide_output:
  "binary_output default_settings wide_file wide_state =
     \<lparr>file_header = replicate 80 0, file_triangle_count = 1,
      file_triangles =
        [((0, 0, 0), (1 / 100, 1 / 100, 1 / 100), (2 * 170141183460469231731687303715884105728 + 1 / 100, 1 / 100, 1 / 100),
          (170141183460469231731687303715884105728 + 1 / 100, 1 / 100, 1 / 100), 0),
         ((0, 0, 0), (170141183460469231731687303715884105728 + 1 / 100, 1 / 100, 1 / 100), (2 * 170141183460469231731687303715884105728 + 1 / 100, 1 / 100, 1 / 100),
          (1 / 100, 1 / 100, 1 / 100), 0),
         ((0, 0, 0), (1 / 100, 1 / 100, 1 / 100), (170141183460469231731687303715884105728 + 1 / 100, 1 / 100, 1 / 100),
          (2 * 170141183460469231731687303715884105728 + 1 / 100, 1 / 100, 1 / 100), 0)]\<rparr>"
  by (simp add: binary_output_def wide_repaired wide_adapt ensure_counterclockwise_def)
     (simp add: wide_file_def)

lemma wide_write_overflow:
  "binary_loop 0 (file_triangle_count wide_file) (file_triangles wide_file) init_reader =
     Inr wide_state
   \<and> binary_write default_settings wide_file wide_state =
       (\<lparr>file_header = replicate 80 0, file_triangle_count = 1, file_triangles = []\<rparr>,
        Some [(0, 0, 0), (1 / 100, 1 / 100, 1 / 100)])"
  by (simp add: wide_read binary_write_def wide_output packs_float32_def) (simp add: wide_file_def)

lemma balanced_read:
  "binary_loop 0 (file_triangle_count balanced_file) (file_triangles balanced_file) init_reader =
     Inr balanced_state"
proof -
  have four: "(4 :: nat) = Suc (Suc (Suc (Suc 0)))"
    by simp
  show ?thesis
    by (simp add: balanced_file_def balanced_state_def reader_eval four)
qed

lemma balanced_open_edges:
  "find_open_edges (track_edges (cur_facets balanced_state)) =
     [((- 1, - 1, 0), (1, - 1, 0)), ((1, - 1, 0), (1, 1, 0)), ((- 1, - 1, 0), (1, 1, 0))]"
  by (simp add: balanced_state_def track_edges_def find_open_edges_def sorted_pair_def)

lemma balanced_fixed:
  "close_open_edges [((- 1, - 1, 0), (1, - 1, 0)), ((1, - 1, 0), (1, 1, 0)), ((- 1, - 1, 0), (1, 1, 0))] =
     [((0, 0, 1), (- 1, - 1, 0), (1, - 1, 0), (1, 1, 0)),
      ((0, 0, 1), (1, - 1, 0), (1, 1, 0), (- 1, - 1, 0)),
      ((0, 0, - 1), (- 1, - 1, 0), (1, 1, 0), (1, - 1, 0))]"
  by (simp add: close_open_edges_def recalculate_normal_def)

lemma balanced_repaired:
  "make_model_manifold (cur_facets balanced_state) =
     [((0, 0, 1), (0, 0, 5), (1, 0, 5), (0, 1, 5)),
      ((0, 0, 1), (- 1, - 1, 0), (1, - 1, 0), (1, 1, 0)),
      ((0, 0, 1), (1, - 1, 0), (1, 1, 0), (- 1, - 1, 0)),
      ((0, 0, - 1), (- 1, - 1, 0), (1, 1, 0), (1, - 1, 0))]"
  by (simp add: make_model_manifold_def Let_def balanced_open_edges balanced_fixed)
     (simp add: balanced_state_def)

lemma balanced_adapt:
  "adapt_vertex scenario_settings (cur_min_vertex balanced_state) = (1, 1, 0)"
  by (simp add: balanced_state_def writer_eval)

lemma balanced_output:
  "binary_output scenario_settings balanced_file balanced_state =
     \<lparr>file_header = replicate 80 0, file_triangle_count = 4,
      file_triangles =
        [((0, 0, 1), (1, 1, 5), (2, 1, 5), (1, 2, 5), 0),
         ((0, 0, 1), (0, 0, 0), (2, 0, 0), (2, 2, 0), 0),
         ((0, 0, 1), (2, 0, 0), (2, 2, 0), (0, 0, 0), 0),
         ((0, 0, - 1), (0, 0, 0), (2, 2, 0), (2, 0, 0), 0)]\<rparr>"
  by (simp add: binary_output_def balanced_repaired balanced_adapt ensure_counterclockwise_def)
     (simp add: balanced_file_def)

lemma balanced_clean:
  "clean_binary_stl_file scenario_settings balanced_file ''out.stl'' Map.empty =
     ([''out.stl'' \<mapsto> BinaryFile (binary_output scenario_settings balanced_file balanced_state)],
      Inr 1)"
  by (simp add: clean_binary_stl_file_def balanced_read) (simp add: balanced_state_def)

text \<open>
  The claim as stated has the count field differ from the number of records whenever the
  repair adds or removes facets. For a file of four triangles, three of them the same and
  the fourth apart, the repair removes two duplicates and adds two facets along the open
  edges of the fourth: four facets are read and four are written, with the count field 4.
\<close>

theorem repair_adds_and_removes_counterexample:
  "clean_binary_stl_file scenario_settings balanced_file ''out.stl'' Map.empty =
     ([''out.stl'' \<mapsto> BinaryFile
         \<lparr>file_header = replicate 80 0, file_triangle_count = 4,
          file_triangles =
            [((0, 0, 1), (1, 1, 5), (2, 1, 5), (1, 2, 5), 0),
             ((0, 0, 1), (0, 0, 0), (2, 0, 0), (2, 2, 0), 0),
             ((0, 0, 1), (2, 0, 0), (2, 2, 0), (0, 0, 0), 0),
             ((0, 0, - 1), (0, 0, 0), (2, 2, 0), (2, 0, 0), 0)]\<rparr>],
      Inr 1)
   \<and> cur_facets balanced_state =
       [((0, 0, 1), (0, 0, 5), (1, 0, 5), (0, 1, 5)),
        ((0, 0, 1), (0, 0, 5), (1, 0, 5), (0, 1, 5)),
        ((0, 0, 1), (0, 0, 5), (1, 0, 5), (0, 1, 5)),
        ((0, 0, 1), (- 1, - 1, 0), (1, - 1, 0), (1, 1, 0))]
   \<and> make_model_manifold (cur_facets balanced_state) =
       [((0, 0, 1), (0, 0, 5), (1, 0, 5), (0, 1, 5)),
        ((0, 0, 1), (- 1, - 1, 0), (1, - 1, 0), (1, 1, 0)),
        ((0, 0, 1), (1, - 1, 0), (1, 1, 0), (- 1, - 1, 0)),
        ((0, 0, - 1), (- 1, - 1, 0), (1, 1, 0), (1, - 1, 0))]"
proof -
  have written: "clean_binary_stl_file scenario_settings balanced_file ''out.stl'' Map.empty =
     ([''out.stl'' \<mapsto> BinaryFile
         \<lparr>file_header = replicate 80 0, file_triangle_count = 4,
          file_triangles =
            [((0, 0, 1), (1, 1, 5), (2, 1, 5), (1, 2, 5), 0),
             ((0, 0, 1), (0, 0, 0), (2, 0, 0), (2, 2, 0), 0),
             ((0, 0, 1), (2, 0, 0), (2, 2, 0), (0, 0, 0), 0),
             ((0, 0, - 1), (0, 0, 0), (2, 2, 0), (2, 0, 0), 0)]\<rparr>],
      Inr 1)"
    by (simp only: balanced_clean balanced_output)
  have given: "cur_facets balanced_state =
       [((0, 0, 1), (0, 0, 5), (1, 0, 5), (0, 1, 5)),
        ((0, 0, 1), (0, 0, 5), (1, 0, 5), (0, 1, 5)),
        ((0, 0, 1), (0, 0, 5), (1, 0, 5), (0, 1, 5)),
        ((0, 0, 1), (- 1, - 1, 0), (1, - 1, 0), (1, 1, 0))]"
    by (simp add: balanced_state_def)
  show ?thesis
    by (rule conjI [OF written conjI [OF given balanced_repaired]])
qed

section \<open>Recomputed normals through repair and writing\<close>

text \<open>Moving three vertices by the same offset changes no edge vector. This is a fact of
  exact arithmetic: on floats the addition of the offset rounds.\<close>

lemma edge_vector_translate:
  "edge_vector (translate a d) (translate b d) = edge_vector a b"
  by (cases a; cases b; cases d) simp

lemma recalculate_normal_translate:
  "recalculate_normal (translate a d) (translate b d) (translate c d) = recalculate_normal a b c"
  by (simp add: recalculate_normal_def edge_vector_translate)

lemma winding_translate:
  "winding (translate a d) (translate b d) (translate c d) n = winding a b c n"
  by (simp add: winding_def edge_vector_translate)

lemma dot_product_normalize:
  "dot_product v (normalize_vector v) = vector_magnitude v"
proof -
  obtain x y z where v: "v = (x, y, z)"
    by (cases v) auto
  define s where "s = x ^ 2 + y ^ 2 + z ^ 2"
  have s0: "0 \<le> s"
    by (simp add: s_def)
  show ?thesis
  proof (cases "s = 0")
    case True
    then show ?thesis
      by (simp add: v s_def Let_def)
  next
    case False
    have "x * (x / sqrt s) + y * (y / sqrt s) + z * (z / sqrt s) = s / sqrt s"
      by (simp add: s_def power2_eq_square add_divide_distrib)
    also have "\<dots> = sqrt s"
      using s0 False by (simp add: real_div_sqrt)
    finally show ?thesis
      using False by (simp add: v s_def Let_def)
  qed
qed

lemma vector_magnitude_nonneg: "0 \<le> vector_magnitude v"
  by (cases v) simp

lemma normalize_vector_zero_iff:
  "normalize_vector v = (0, 0, 0) \<longleftrightarrow> vector_magnitude v = 0"
proof
  assume "normalize_vector v = (0, 0, 0)"
  then have "dot_product v (normalize_vector v) = 0"
    by (cases v) simp
  then show "vector_magnitude v = 0"
    by (simp add: dot_product_normalize)
next
  assume "vector_magnitude v = 0"
  then show "normalize_vector v = (0, 0, 0)"
    by (cases v) (simp add: Let_def)
qed

lemma winding_recalculate_normal:
  "winding a b c (recalculate_normal a b c) =
     vector_magnitude (cross_product (edge_vector a b) (edge_vector a c))"
  by (simp add: winding_def recalculate_normal_def dot_product_normalize)

lemma write_facet_recalculated:
  "write_facet d (recalculate_normal a b c, a, b, c) =
     (recalculate_normal a b c, translate a d, translate b d, translate c d)"
proof -
  have "0 \<le> winding (translate a d) (translate b d) (translate c d) (recalculate_normal a b c)"
    by (simp add: winding_translate winding_recalculate_normal vector_magnitude_nonneg)
  then show ?thesis
    by (simp add: ensure_counterclockwise_winding)
qed

lemma close_edge_recalculated:
  "close_edge e es = Some f \<Longrightarrow> recalculated f"
  by (induction es) (auto simp: recalculated_def Let_def split: if_splits)

lemma close_open_edges_recalculated:
  assumes "f \<in> set (close_open_edges es)"
  shows "recalculated f"
proof -
  from assms obtain e where "close_edge e es = Some f"
    by (auto simp: close_open_edges_def split: option.splits)
  then show ?thesis
    by (rule close_edge_recalculated)
qed

lemma make_model_manifold_recalculated:
  assumes "\<forall>f \<in> set fs. recalculated f" and "g \<in> set (make_model_manifold fs)"
  shows "recalculated g"
  using assms by (auto simp: make_model_manifold_def Let_def dest: close_open_edges_recalculated)

lemma written_recalculated:
  assumes "recalculated f"
  shows "case write_facet d f of (n, a, b, c) \<Rightarrow>
           n = recalculate_normal a b c \<and> 0 \<le> winding a b c n
           \<and> (n \<noteq> (0, 0, 0) \<longrightarrow> 0 < winding a b c n)"
proof -
  obtain n a b c where f: "f = (n, a, b, c)"
    by (cases f) auto
  with assms have n: "n = recalculate_normal a b c"
    by (simp add: recalculated_def)
  let ?m = "vector_magnitude (cross_product (edge_vector a b) (edge_vector a c))"
  have w: "winding (translate a d) (translate b d) (translate c d) n = ?m"
    by (simp add: n winding_translate winding_recalculate_normal)
  have "n \<noteq> (0, 0, 0) \<longrightarrow> ?m \<noteq> 0"
    by (simp add: n recalculate_normal_def normalize_vector_zero_iff)
  then have "n \<noteq> (0, 0, 0) \<longrightarrow> 0 < ?m"
    using vector_magnitude_nonneg [of "cross_product (edge_vector a b) (edge_vector a c)"]
    by linarith
  moreover have "write_facet d f = (n, translate a d, translate b d, translate c d)"
    unfolding f n by (rule write_facet_recalculated)
  ultimately show ?thesis
    using w by (simp add: n recalculate_normal_translate vector_magnitude_nonneg)
qed

lemma skip_empty_lines_facets:
  "cur_facets (skip_empty_lines lines st) = cur_facets st
   \<and> cur_min_vertex (skip_empty_lines lines st) = cur_min_vertex st"
proof (induction lines st rule: skip_empty_lines.induct)
  case (1 lines st)
  show ?case
  proof (cases "length lines > line_index st + 1 \<and> strip (lines ! line_index st) = []")
    case True
    with 1 show ?thesis
      by (subst (1 2) skip_empty_lines.simps) (simp add: warn_def)
  next
    case False
    then show ?thesis
      by (subst (1 2) skip_empty_lines.simps) auto
  qed
qed

lemma go_to_next_line_facets:
  "cur_facets (go_to_next_line lines st) = cur_facets st
   \<and> cur_min_vertex (go_to_next_line lines st) = cur_min_vertex st"
  by (simp add: go_to_next_line_def skip_empty_lines_facets)

lemma expect_line_facets:
  "expect_line lines expected st = Inr st' \<Longrightarrow>
     cur_facets st' = cur_facets st \<and> cur_min_vertex st' = cur_min_vertex st"
  by (auto simp: expect_line_def go_to_next_line_facets split: sum.splits if_splits)

lemma read_vertex_facets:
  "read_vertex lines st = Inr (v, st') \<Longrightarrow>
     cur_facets st' = cur_facets st
     \<and> cur_min_vertex st' = track_ascii_minimum v (cur_min_vertex st)"
  by (auto simp: read_vertex_def go_to_next_line_facets warn_def Let_def
           split: sum.splits if_splits list.splits)

lemma read_facet_block_facets:
  assumes "read_facet_block lines st = Inr st'"
  shows "\<exists>a b c. cur_facets st' = cur_facets st @ [(recalculate_normal a b c, a, b, c)]
           \<and> cur_min_vertex st' =
               track_ascii_minimum c (track_ascii_minimum b (track_ascii_minimum a (cur_min_vertex st)))"
proof -
  from assms obtain st1 a st2 b st3 c st4 st7 where
    s1: "expect_line lines ''outer loop'' (go_to_next_line lines st) = Inr st1" and
    s2: "read_vertex lines st1 = Inr (a, st2)" and
    s3: "read_vertex lines st2 = Inr (b, st3)" and
    s4: "read_vertex lines st3 = Inr (c, st4)" and
    s7: "expect_line lines ''endloop''
           (let normal = recalculate_normal a b c;
                st5 = st4\<lparr>cur_facets := cur_facets st4 @ [(normal, a, b, c)]\<rparr>
            in if \<not> is_counterclockwise a b c normal then warn st5 else st5) = Inr st7" and
    s8: "expect_line lines ''endfacet'' st7 = Inr st'"
    by (auto simp: read_facet_block_def Let_def split: sum.splits if_splits prod.splits)
  from expect_line_facets [OF s1] have f1: "cur_facets st1 = cur_facets st"
    and m1: "cur_min_vertex st1 = cur_min_vertex st"
    by (simp_all add: go_to_next_line_facets)
  note r2 = read_vertex_facets [OF s2] and r3 = read_vertex_facets [OF s3]
    and r4 = read_vertex_facets [OF s4]
  from expect_line_facets [OF s7] have
    "cur_facets st7 = cur_facets st4 @ [(recalculate_normal a b c, a, b, c)]"
    "cur_min_vertex st7 = cur_min_vertex st4"
    by (simp_all add: Let_def warn_def)
  with expect_line_facets [OF s8] r2 r3 r4 f1 m1 have
    "cur_facets st' = cur_facets st @ [(recalculate_normal a b c, a, b, c)]
     \<and> cur_min_vertex st' =
         track_ascii_minimum c (track_ascii_minimum b (track_ascii_minimum a (cur_min_vertex st)))"
    by simp
  then show ?thesis
    by blast
qed

lemma read_facet_block_recalculated:
  assumes "read_facet_block lines st = Inr st'" and "\<forall>f \<in> set (cur_facets st). recalculated f"
  shows "\<forall>f \<in> set (cur_facets st'). recalculated f"
  using read_facet_block_facets [OF assms(1)] assms(2)
  by (auto simp: recalculated_def)

lemma ascii_loop_recalculated:
  "ascii_loop n lines st = Inr st' \<Longrightarrow> \<forall>f \<in> set (cur_facets st). recalculated f
     \<Longrightarrow> \<forall>f \<in> set (cur_facets st'). recalculated f"
proof (induction n arbitrary: st)
  case 0
  then show ?case by simp
next
  case (Suc n)
  then show ?case
    by (auto split: sum.splits dest: read_facet_block_recalculated)
qed

lemma read_ascii_recalculated:
  assumes "read_ascii lines = Inr (solid_name, endsolid_name, st)"
  shows "\<forall>f \<in> set (cur_facets st). recalculated f"
proof -
  from assms obtain st0 st1 st2 where
    a: "read_solid lines (init_line lines init_ascii) = Inr (solid_name, st0)" and
    b: "ascii_loop (total_facet_count lines) lines st0 = Inr st1" and
    c: "read_endsolid lines solid_name st1 = Inr (endsolid_name, st2)" and
    d: "st = go_to_next_line lines st2"
    by (auto simp: read_ascii_def split: sum.splits prod.splits)
  have "cur_facets (init_line lines init_ascii) = []"
    by (simp add: init_line_def skip_empty_lines_facets init_ascii_def)
  with a have "cur_facets st0 = []"
    by (auto simp: read_solid_def go_to_next_line_facets warn_def split: sum.splits if_splits)
  with ascii_loop_recalculated [OF b] have "\<forall>f \<in> set (cur_facets st1). recalculated f"
    by simp
  moreover from c have "cur_facets st2 = cur_facets st1"
    by (auto simp: read_endsolid_def Let_def warn_def split: sum.splits if_splits)
  ultimately show ?thesis
    by (simp add: d go_to_next_line_facets)
qed







lemma scenario_read:
  "read_ascii (read_lines scenario_lines) = Inr (''cube'', ''id cube'', scenario_state)"
  by (simp add: scenario_lines_def scenario_state_def text_eval ascii_eval)

lemma scenario_fixed:
  "close_open_edges (find_open_edges (track_edges [((0, 0, 1), (- 1, - 1, 0), (1, - 1, 0), (1, 1, 0))])) =
     [((0, 0, 1), (- 1, - 1, 0), (1, - 1, 0), (1, 1, 0)),
      ((0, 0, 1), (1, - 1, 0), (1, 1, 0), (- 1, - 1, 0)),
      ((0, 0, - 1), (- 1, - 1, 0), (1, 1, 0), (1, - 1, 0))]"
  by (simp add: repair_eval)

lemma scenario_repaired:
  "make_model_manifold (cur_facets scenario_state) =
     [((0, 0, 1), (- 1, - 1, 0), (1, - 1, 0), (1, 1, 0)),
      ((0, 0, 1), (1, - 1, 0), (1, 1, 0), (- 1, - 1, 0)),
      ((0, 0, - 1), (- 1, - 1, 0), (1, 1, 0), (1, - 1, 0))]"
  by (simp add: scenario_state_def make_model_manifold_def Let_def scenario_fixed)

lemma scenario_adapt:
  "adapt_vertex scenario_settings (cur_min_vertex scenario_state) = (1, 1, 0)"
  by (simp add: scenario_state_def writer_eval)

lemma scenario_written:
  "ascii_written scenario_settings scenario_state =
     [((0, 0, 1), (0, 0, 0), (2, 0, 0), (2, 2, 0)),
      ((0, 0, 1), (2, 0, 0), (2, 2, 0), (0, 0, 0)),
      ((0, 0, - 1), (0, 0, 0), (2, 2, 0), (2, 0, 0))]"
  by (simp add: ascii_written_def scenario_repaired scenario_adapt ensure_counterclockwise_def)


section \<open>What the writers emit\<close>










text \<open>
  In exact arithmetic the repositioning moves the three vertices by the same offset and
  changes no edge vector, so the stored normal is also the normal recomputed from the
  written vertices, and the dot product is positive exactly when the stored normal is
  not the zero vector. On floats the addition of the offset rounds, and this need not
  hold for the written values: a triangle much smaller than the offset is written as
  three equal points with the normal of the triangle read.
\<close>

lemma written_facets_exact:
  "(binary_loop 0 (file_triangle_count stl) (file_triangles stl) init_reader = Inr st \<longrightarrow>
      (\<forall>r \<in> set (file_triangles (binary_output cfg stl st)).
         case r of (n, a, b, c, attr) \<Rightarrow>
           n = recalculate_normal a b c \<and> 0 \<le> winding a b c n
           \<and> (n \<noteq> (0, 0, 0) \<longrightarrow> 0 < winding a b c n)))
   \<and> (read_ascii lines = Inr (solid_name, endsolid_name, st') \<longrightarrow>
      (\<forall>f \<in> set (ascii_written cfg st').
         case f of (n, a, b, c) \<Rightarrow>
           n = recalculate_normal a b c \<and> 0 \<le> winding a b c n
           \<and> (n \<noteq> (0, 0, 0) \<longrightarrow> 0 < winding a b c n)))"
proof (intro conjI impI ballI)
  fix r
  assume rd: "binary_loop 0 (file_triangle_count stl) (file_triangles stl) init_reader = Inr st"
    and r: "r \<in> set (file_triangles (binary_output cfg stl st))"
  from binary_loop_recalculated [OF rd] have "\<forall>f \<in> set (cur_facets st). recalculated f"
    by (simp add: init_reader_def)
  then have rep: "\<forall>g \<in> set (make_model_manifold (cur_facets st)). recalculated g"
    using make_model_manifold_recalculated by blast
  from r obtain g where g: "g \<in> set (make_model_manifold (cur_facets st))"
    and rg: "r = (case write_facet (adapt_vertex cfg (cur_min_vertex st)) g of
                    (normal, fixed1, fixed2, fixed3) \<Rightarrow> (normal, fixed1, fixed2, fixed3, 0))"
    by (auto simp: binary_output_def Let_def)
  from rep g have "recalculated g"
    by blast
  from written_recalculated [OF this, of "adapt_vertex cfg (cur_min_vertex st)"] rg
  show "case r of (n, a, b, c, attr) \<Rightarrow>
          n = recalculate_normal a b c \<and> 0 \<le> winding a b c n
          \<and> (n \<noteq> (0, 0, 0) \<longrightarrow> 0 < winding a b c n)"
    by (auto split: prod.splits)
next
  fix f
  assume rd: "read_ascii lines = Inr (solid_name, endsolid_name, st')"
    and f: "f \<in> set (ascii_written cfg st')"
  from read_ascii_recalculated [OF rd] have
    rep: "\<forall>g \<in> set (make_model_manifold (cur_facets st')). recalculated g"
    using make_model_manifold_recalculated by blast
  from f obtain g where g: "g \<in> set (make_model_manifold (cur_facets st'))"
    and fg: "f = write_facet (adapt_vertex cfg (cur_min_vertex st')) g"
    by (auto simp: ascii_written_def)
  from rep g have "recalculated g"
    by blast
  from written_recalculated [OF this, of "adapt_vertex cfg (cur_min_vertex st')"] fg
  show "case f of (n, a, b, c) \<Rightarrow>
          n = recalculate_normal a b c \<and> 0 \<le> winding a b c n
          \<and> (n \<noteq> (0, 0, 0) \<longrightarrow> 0 < winding a b c n)"
    by simp
qed



text \<open>
  C9. When either cleaner ends with an exception (the fatal attribute error of the binary
  reader, any error of the ASCII grammar, or any other exception of the readers), the file
  system is the one it started with: nothing was written. When it ends without one, the
  output file has been written.
\<close>

theorem no_output_on_error:
  "(snd (clean_binary_stl_file cfg file path fs) = Inl e \<longrightarrow>
      fst (clean_binary_stl_file cfg file path fs) = fs)
   \<and> (snd (clean_ascii_stl_file float_str cfg raw_lines path fs) = Inl e' \<longrightarrow>
      fst (clean_ascii_stl_file float_str cfg raw_lines path fs) = fs)
   \<and> (snd (clean_binary_stl_file cfg file path fs) = Inr w \<longrightarrow>
      (\<exists>out. fst (clean_binary_stl_file cfg file path fs) = fs(path \<mapsto> BinaryFile out)))
   \<and> (snd (clean_ascii_stl_file float_str cfg raw_lines path fs) = Inr w' \<longrightarrow>
      (\<exists>out. fst (clean_ascii_stl_file float_str cfg raw_lines path fs) = fs(path \<mapsto> TextFile out)))"
  by (auto simp: clean_binary_stl_file_def clean_ascii_stl_file_def split: sum.splits prod.splits)

lemma headless_clean:
  "clean_ascii_stl_file float_str default_settings headless_lines ''out.stl'' Map.empty =
     (Map.empty,
      Inl (STLCleanerException
        (''Error on line 1: Expected '' @ [quote] @ ''solid'' @ [quote] @ '' but got ''
         @ [quote] @ ''cube'' @ [quote] @ ''.'')))"
  by (simp add: clean_ascii_stl_file_def headless_lines_def text_eval ascii_eval)

theorem no_output_on_error_witness:
  "snd (clean_binary_stl_file default_settings attr5_file ''out.stl'' Map.empty) =
     Inl (STLCleanerException
        (''Error on position 184: Attribute byte count should be '' @ [quote] @ ''0'' @ [quote]
         @ '', but got '' @ [quote] @ ''5'' @ [quote] @ ''.''))
   \<and> fst (clean_binary_stl_file default_settings attr5_file ''out.stl'' Map.empty) = Map.empty
   \<and> snd (clean_ascii_stl_file (\<lambda>x. []) default_settings headless_lines ''out.stl'' Map.empty) =
     Inl (STLCleanerException
        (''Error on line 1: Expected '' @ [quote] @ ''solid'' @ [quote] @ '' but got ''
         @ [quote] @ ''cube'' @ [quote] @ ''.''))
   \<and> fst (clean_ascii_stl_file (\<lambda>x. []) default_settings headless_lines ''out.stl'' Map.empty)
       = Map.empty"
  using no_output_on_error [of default_settings attr5_file "''out.stl''" Map.empty _
      "\<lambda>x. []" headless_lines]
  by (simp add: attr5_clean headless_clean)

lemma scenario_clean:
  "clean_ascii_stl_file float_str scenario_settings scenario_lines ''out.stl'' Map.empty =
     ([''out.stl'' \<mapsto> TextFile (fixed_lines float_str scenario_settings
          (resolve_name scenario_settings ''cube'' ''id cube'')
          (ascii_written scenario_settings scenario_state))],
      Inr 2)"
  by (simp add: clean_ascii_stl_file_def scenario_read) (simp add: scenario_state_def)

lemma scenario_name:
  "resolve_name scenario_settings ''cube'' ''id cube'' = ''cube | id cube''"
  by (simp add: resolve_name_def scenario_settings_def default_settings_def)

lemma read_endsolid_name:
  assumes "read_endsolid lines solid_name st = Inr (endsolid_name, st')"
  shows "\<exists>line. get_current_line lines st = Inr line
           \<and> startswith line ''endsolid''
           \<and> endsolid_name = (if search_name ''endsolid'' line then lstrip (drop 6 line) else [])"
  using assms by (auto simp: read_endsolid_def Let_def split: sum.splits if_splits)

text \<open>
  C4. The file of the specification's scenario starts with \<^verbatim>\<open>solid cube\<close> and ends with
  \<^verbatim>\<open>endsolid cube\<close>. The name of the \<^verbatim>\<open>endsolid\<close> line is taken from column 6, as the
  name of the \<^verbatim>\<open>solid\<close> line is, and \<^verbatim>\<open>endsolid\<close> is three characters longer than
  \<^verbatim>\<open>solid\<close>: the name taken is \<^verbatim>\<open>id cube\<close>. The two names differ and are joined, and
  the file is written between \<^verbatim>\<open>solid cube | id cube\<close> and \<^verbatim>\<open>endsolid cube | id cube\<close>.
  The theorem runs the file with \<^verbatim>\<open>--min-pos=0,0,0\<close>, for any way of printing a float.
\<close>

theorem endsolid_name_keeps_keyword_tail:
  "read_ascii (read_lines scenario_lines) = Inr (''cube'', ''id cube'', scenario_state)
   \<and> clean_ascii_stl_file float_str scenario_settings scenario_lines ''out.stl'' Map.empty =
     ([''out.stl'' \<mapsto> TextFile
        [''solid cube | id cube'',
         '' facet normal '' @ float_str 0 @ '' '' @ float_str 0 @ '' '' @ float_str 1,
         ''  outer loop'',
         ''   vertex '' @ float_str 0 @ '' '' @ float_str 0 @ '' '' @ float_str 0,
         ''   vertex '' @ float_str 2 @ '' '' @ float_str 0 @ '' '' @ float_str 0,
         ''   vertex '' @ float_str 2 @ '' '' @ float_str 2 @ '' '' @ float_str 0,
         ''  endloop'',
         '' endfacet'',
         '' facet normal '' @ float_str 0 @ '' '' @ float_str 0 @ '' '' @ float_str 1,
         ''  outer loop'',
         ''   vertex '' @ float_str 2 @ '' '' @ float_str 0 @ '' '' @ float_str 0,
         ''   vertex '' @ float_str 2 @ '' '' @ float_str 2 @ '' '' @ float_str 0,
         ''   vertex '' @ float_str 0 @ '' '' @ float_str 0 @ '' '' @ float_str 0,
         ''  endloop'',
         '' endfacet'',
         '' facet normal '' @ float_str 0 @ '' '' @ float_str 0 @ '' '' @ float_str (- 1),
         ''  outer loop'',
         ''   vertex '' @ float_str 0 @ '' '' @ float_str 0 @ '' '' @ float_str 0,
         ''   vertex '' @ float_str 2 @ '' '' @ float_str 2 @ '' '' @ float_str 0,
         ''   vertex '' @ float_str 2 @ '' '' @ float_str 0 @ '' '' @ float_str 0,
         ''  endloop'',
         '' endfacet'',
         ''endsolid cube | id cube'']],
      Inr 2)"
  by (simp add: scenario_read scenario_clean scenario_name scenario_written fixed_lines_def)
     (simp add: scenario_settings_def default_settings_def)


section \<open>Format sniffing: what is classified as binary\<close>

lemma unpack_uint32_four:
  "unpack_uint32 [b0, b1, b2, b3] =
     Inr (unat b0 + 256 * unat b1 + 65536 * unat b2 + 16777216 * unat b3)"
  by (simp add: unpack_uint32_def)

lemma unpack_uint32_short:
  "length b < 4 \<Longrightarrow> unpack_uint32 b = Inl StructError"
  by (auto simp: unpack_uint32_def split: list.splits)

lemma take4_drop80:
  assumes "84 \<le> length file"
  shows "take 4 (drop 80 file) = [file ! 80, file ! 81, file ! 82, file ! 83]"
proof -
  have "length (take 4 (drop 80 file)) = 4"
    using assms by simp
  moreover have "\<forall>k < 4. take 4 (drop 80 file) ! k = file ! (80 + k)"
    using assms by simp
  ultimately show ?thesis
    by (auto simp: list_eq_iff_nth_eq nth_Cons' numeral_eq_Suc less_Suc_eq)
qed

lemma is_binary_stl_long:
  assumes "84 \<le> length file"
  shows "is_binary_stl file \<longleftrightarrow> 80 + 4 + 50 * declared_count file = length file"
  using take4_drop80 [OF assms]
  by (simp add: is_binary_stl_def file_read_def Let_def unpack_uint32_four declared_count_def)

lemma is_binary_stl_short:
  assumes "length file < 84"
  shows "\<not> is_binary_stl file"
proof -
  have "length (take 4 (drop 80 file)) < 4"
    using assms by simp
  then show ?thesis
    by (simp add: is_binary_stl_def file_read_def Let_def unpack_uint32_short del: length_take length_drop)
qed

text \<open>
  C5 (as amended). A file of at least 84 bytes is classified as binary exactly when
  \<open>80 + 4 + 50 * N\<close> is its length, \<open>N\<close> being the little-endian number in its bytes 80
  to 83; a shorter file, whose count cannot be read, is not binary. An ASCII file is
  therefore classified as not binary when its four bytes at 80 to 83 are characters of a
  text (tab, newline, ..., printable: at least 9) and it is shorter than
  \<open>84 + 50 * 0x09090909 = 7579354134\<close> bytes.
\<close>

theorem is_binary_stl_sniff:
  "(84 \<le> length file \<longrightarrow>
      (is_binary_stl file \<longleftrightarrow> 80 + 4 + 50 * declared_count file = length file))
   \<and> (length file < 84 \<longrightarrow> \<not> is_binary_stl file)
   \<and> (9 \<le> unat (file ! 80) \<and> 9 \<le> unat (file ! 81) \<and> 9 \<le> unat (file ! 82)
        \<and> 9 \<le> unat (file ! 83) \<and> length file < 7579354134
      \<longrightarrow> \<not> is_binary_stl file)"
proof (intro conjI impI)
  assume "84 \<le> length file"
  then show "is_binary_stl file \<longleftrightarrow> 80 + 4 + 50 * declared_count file = length file"
    by (rule is_binary_stl_long)
next
  assume "length file < 84"
  then show "\<not> is_binary_stl file"
    by (rule is_binary_stl_short)
next
  assume a: "9 \<le> unat (file ! 80) \<and> 9 \<le> unat (file ! 81) \<and> 9 \<le> unat (file ! 82)
        \<and> 9 \<le> unat (file ! 83) \<and> length file < 7579354134"
  show "\<not> is_binary_stl file"
  proof (cases "84 \<le> length file")
    case True
    from a have "151587081 \<le> declared_count file"
      by (simp add: declared_count_def)
    with a have "80 + 4 + 50 * declared_count file \<noteq> length file"
      by linarith
    with True show ?thesis
      by (simp add: is_binary_stl_long)
  next
    case False
    then show ?thesis
      by (simp add: is_binary_stl_short)
  qed
qed

lemma padded_length: "length padded_ascii_file = 8421504584"
  by (simp add: padded_ascii_file_def ascii_bytes_def)

lemma padded_nth:
  assumes "8 \<le> k" and "k < 8421504573"
  shows "padded_ascii_file ! k = 0x0A"
proof -
  define pre :: "byte list" where "pre = ascii_bytes ''solid a'' @ [0x0A]"
  define post :: "byte list" where "post = ascii_bytes ''endsolid a'' @ [0x0A]"
  have l: "length pre = 8"
    by (simp add: pre_def ascii_bytes_def)
  have f: "padded_ascii_file = pre @ (replicate 8421504565 0x0A @ post)"
    by (simp add: padded_ascii_file_def pre_def post_def)
  have k1: "\<not> k < length pre" and k2: "k - length pre < 8421504565"
    using assms l by linarith+
  have "padded_ascii_file ! k = (replicate 8421504565 0x0A @ post) ! (k - length pre)"
    using k1 by (simp only: f nth_append if_False)
  also have "\<dots> = replicate 8421504565 0x0A ! (k - length pre)"
    using k2 by (simp only: nth_append length_replicate if_True)
  also have "\<dots> = 0x0A"
    using k2 by (rule nth_replicate)
  finally show ?thesis .
qed

text \<open>
  The claim as stated has every ASCII file with a \<^verbatim>\<open>solid\<close> header classified as not
  binary. The ASCII file of 8421504584 bytes above, which starts with \<^verbatim>\<open>solid a\<close>, is
  classified as binary.
\<close>

theorem ascii_file_sniffed_binary:
  "is_binary_stl padded_ascii_file
   \<and> take 6 padded_ascii_file = ascii_bytes ''solid ''
   \<and> length padded_ascii_file = 8421504584"
proof -
  have "declared_count padded_ascii_file = 168430090"
    by (simp add: declared_count_def padded_nth)
  then have "is_binary_stl padded_ascii_file"
    by (simp add: is_binary_stl_long padded_length)
  moreover have "take 6 padded_ascii_file = ascii_bytes ''solid ''"
    by (simp add: padded_ascii_file_def ascii_bytes_def)
  ultimately show ?thesis
    by (simp add: padded_length)
qed

theorem is_binary_stl_sniff_witness:
  "is_binary_stl (replicate 84 0)
   \<and> declared_count (replicate 84 0) = 0
   \<and> \<not> is_binary_stl (ascii_bytes ''solid a'')
   \<and> \<not> is_binary_stl (replicate 100 0x20)"
  using is_binary_stl_sniff [of "replicate 84 0"] is_binary_stl_sniff [of "ascii_bytes ''solid a''"]
    is_binary_stl_sniff [of "replicate 100 0x20"]
  by (simp add: declared_count_def ascii_bytes_def)


section \<open>Repairing a tetrahedron with one facet missing\<close>

lemma sqrt_nine: "sqrt 9 = 3"
  using real_sqrt_abs [of 3] by simp

lemma tetrahedron_sides_eval:
  "tetrahedron_sides =
     [((0, - 1, 0), (0, 0, 0), (1, 0, 0), (0, 0, 2)),
      ((2 / 3, 2 / 3, 1 / 3), (1, 0, 0), (0, 1, 0), (0, 0, 2)),
      ((- 1, 0, 0), (0, 1, 0), (0, 0, 0), (0, 0, 2))]"
  by (simp add: tetrahedron_sides_def read_facet_def recalculate_normal_def sqrt_nine)

lemma tetrahedron_closed_eval:
  "tetrahedron_closed =
     [((0, 0, - 1), (0, 0, 0), (0, 1, 0), (1, 0, 0)),
      ((0, - 1, 0), (0, 0, 0), (1, 0, 0), (0, 0, 2)),
      ((2 / 3, 2 / 3, 1 / 3), (1, 0, 0), (0, 1, 0), (0, 0, 2)),
      ((- 1, 0, 0), (0, 1, 0), (0, 0, 0), (0, 0, 2))]"
  by (simp add: tetrahedron_closed_def tetrahedron_sides_eval read_facet_def recalculate_normal_def)

lemma tetrahedron_closed_manifold: "is_model_manifold tetrahedron_closed"
  by (simp add: tetrahedron_closed_eval is_model_manifold_def count_edges_def sorted_pair_def)

lemma tetrahedron_open_edges:
  "find_open_edges (track_edges tetrahedron_sides) =
     [((0, 0, 0), (1, 0, 0)), ((0, 1, 0), (1, 0, 0)), ((0, 0, 0), (0, 1, 0))]"
  by (simp add: tetrahedron_sides_eval track_edges_def find_open_edges_def sorted_pair_def)

lemma tetrahedron_fixed:
  "close_open_edges [((0, 0, 0), (1, 0, 0)), ((0, 1, 0), (1, 0, 0)), ((0, 0, 0), (0, 1, 0))] =
     [((0, 0, 1), (0, 0, 0), (1, 0, 0), (0, 1, 0)),
      ((0, 0, - 1), (0, 1, 0), (1, 0, 0), (0, 0, 0)),
      ((0, 0, - 1), (0, 0, 0), (0, 1, 0), (1, 0, 0))]"
  by (simp add: close_open_edges_def recalculate_normal_def)

lemma tetrahedron_repaired:
  "make_model_manifold tetrahedron_sides =
     [((0, - 1, 0), (0, 0, 0), (1, 0, 0), (0, 0, 2)),
      ((2 / 3, 2 / 3, 1 / 3), (1, 0, 0), (0, 1, 0), (0, 0, 2)),
      ((- 1, 0, 0), (0, 1, 0), (0, 0, 0), (0, 0, 2)),
      ((0, 0, 1), (0, 0, 0), (1, 0, 0), (0, 1, 0)),
      ((0, 0, - 1), (0, 1, 0), (1, 0, 0), (0, 0, 0)),
      ((0, 0, - 1), (0, 0, 0), (0, 1, 0), (1, 0, 0))]"
  by (simp add: make_model_manifold_def Let_def tetrahedron_open_edges tetrahedron_fixed)
     (simp add: tetrahedron_sides_eval)

lemma tetrahedron_usage:
  "count_edges (make_model_manifold tetrahedron_sides) =
     [(((0, 0, 0), (1, 0, 0)), 4),
      (((0, 0, 2), (1, 0, 0)), 2),
      (((0, 0, 0), (0, 0, 2)), 2),
      (((0, 1, 0), (1, 0, 0)), 4),
      (((0, 0, 2), (0, 1, 0)), 2),
      (((0, 0, 0), (0, 1, 0)), 4)]"
  by (simp add: tetrahedron_repaired count_edges_def sorted_pair_def)

text \<open>
  C2. The claim: for a closed mesh with one triangle removed, the repair returns facets in
  which every edge is used by exactly two facets, so that \<open>is_model_manifold\<close> holds of
  the result. The code: each of the three open edges finds a partner among the other two
  and yields a facet over the same three vertices, in three different vertex orders; the
  removal of duplicates compares the vertices in order and keeps all three. For the
  tetrahedron without its bottom facet the result has six facets, each edge of the hole is
  used four times, and \<open>is_model_manifold\<close> is false, in whatever order the six facets are
  listed (lemma \<open>repair_not_manifold_in_any_order\<close> below).
\<close>

theorem repair_fills_hole_three_times:
  "is_model_manifold tetrahedron_closed
   \<and> find_open_edges (track_edges tetrahedron_sides) =
       [((0, 0, 0), (1, 0, 0)), ((0, 1, 0), (1, 0, 0)), ((0, 0, 0), (0, 1, 0))]
   \<and> make_model_manifold tetrahedron_sides =
       [((0, - 1, 0), (0, 0, 0), (1, 0, 0), (0, 0, 2)),
        ((2 / 3, 2 / 3, 1 / 3), (1, 0, 0), (0, 1, 0), (0, 0, 2)),
        ((- 1, 0, 0), (0, 1, 0), (0, 0, 0), (0, 0, 2)),
        ((0, 0, 1), (0, 0, 0), (1, 0, 0), (0, 1, 0)),
        ((0, 0, - 1), (0, 1, 0), (1, 0, 0), (0, 0, 0)),
        ((0, 0, - 1), (0, 0, 0), (0, 1, 0), (1, 0, 0))]
   \<and> count_edges (make_model_manifold tetrahedron_sides) =
       [(((0, 0, 0), (1, 0, 0)), 4),
        (((0, 0, 2), (1, 0, 0)), 2),
        (((0, 0, 0), (0, 0, 2)), 2),
        (((0, 1, 0), (1, 0, 0)), 4),
        (((0, 0, 2), (0, 1, 0)), 2),
        (((0, 0, 0), (0, 1, 0)), 4)]
   \<and> \<not> is_model_manifold (make_model_manifold tetrahedron_sides)"
proof -
  have "\<not> is_model_manifold (make_model_manifold tetrahedron_sides)"
    by (simp add: is_model_manifold_def tetrahedron_usage)
  then show ?thesis
    using tetrahedron_closed_manifold tetrahedron_open_edges tetrahedron_repaired tetrahedron_usage
    by simp
qed


section \<open>The running minimum and repositioning\<close>

lemma three_cases: "(j::nat) < 3 \<longleftrightarrow> j = 0 \<or> j = 1 \<or> j = 2"
  by auto

lemma length3:
  assumes "length mv = 3"
  shows "mv = [mv ! 0, mv ! 1, mv ! 2]"
  using assms by (auto simp: list_eq_iff_nth_eq three_cases)

lemma track_ascii_minimum_value:
  assumes "length mv = 3"
  shows "track_ascii_minimum v mv =
     [if below_minimum (coord v 0) (mv ! 0) then Some (coord v 0) else mv ! 0,
      if below_minimum (coord v 1) (mv ! 1) then Some (coord v 1) else mv ! 1,
      if below_minimum (coord v 2) (mv ! 2) then Some (coord v 2) else mv ! 2]"
proof -
  obtain a b c where mv: "mv = [a, b, c]"
    using length3 [OF assms] by blast
  show ?thesis
    by (cases v) (simp add: mv track_ascii_minimum_def)
qed

lemma track_ascii_minimum_length:
  assumes "length mv = 3"
  shows "length (track_ascii_minimum v mv) = 3"
  by (simp add: track_ascii_minimum_value [OF assms])

lemma track_ascii_minimum_nth:
  assumes "length mv = 3" and "j < 3"
  shows "track_ascii_minimum v mv ! j =
           (if below_minimum (coord v j) (mv ! j) then Some (coord v j) else mv ! j)"
  using assms(2) by (auto simp: track_ascii_minimum_value [OF assms(1)] three_cases)

lemma tracked_step:
  assumes "tracked mv vs"
  shows "tracked (track_ascii_minimum v mv) (vs @ [v])"
proof -
  from assms have len: "length mv = 3"
    by (simp add: tracked_def)
  have "case track_ascii_minimum v mv ! j of
          None \<Rightarrow> vs @ [v] = []
        | Some m \<Rightarrow> (\<forall>u \<in> set (vs @ [v]). m \<le> coord u j) \<and> (\<exists>u \<in> set (vs @ [v]). coord u j = m)"
    if j: "j < 3" for j
  proof (cases "mv ! j")
    case None
    from assms j have "case mv ! j of
          None \<Rightarrow> vs = []
        | Some m \<Rightarrow> (\<forall>v \<in> set vs. m \<le> coord v j) \<and> (\<exists>v \<in> set vs. coord v j = m)"
      by (simp add: tracked_def)
    with None have "vs = []"
      by simp
    with None show ?thesis
      by (simp add: track_ascii_minimum_nth [OF len j] below_minimum_def del: coord.simps)
  next
    case (Some m)
    from assms j have "case mv ! j of
          None \<Rightarrow> vs = []
        | Some m \<Rightarrow> (\<forall>v \<in> set vs. m \<le> coord v j) \<and> (\<exists>v \<in> set vs. coord v j = m)"
      by (simp add: tracked_def)
    with Some have lo: "\<forall>u \<in> set vs. m \<le> coord u j" and at: "\<exists>u \<in> set vs. coord u j = m"
      by simp_all
    show ?thesis
    proof (cases "coord v j < m")
      case True
      with lo have "\<forall>u \<in> set vs. coord v j \<le> coord u j"
        by force
      with True Some show ?thesis
        by (simp add: track_ascii_minimum_nth [OF len j] below_minimum_def del: coord.simps)
    next
      case False
      with lo at Some show ?thesis
        by (auto simp: track_ascii_minimum_nth [OF len j] below_minimum_def simp del: coord.simps)
    qed
  qed
  then show ?thesis
    by (simp add: tracked_def track_ascii_minimum_length [OF len])
qed

lemma tracked_init: "tracked [None, None, None] []"
  by (simp add: tracked_def three_cases)

lemma read_facet_block_tracked:
  assumes "read_facet_block lines st = Inr st'"
    and "tracked (cur_min_vertex st) (all_vertices (cur_facets st))"
  shows "tracked (cur_min_vertex st') (all_vertices (cur_facets st'))"
proof -
  from read_facet_block_facets [OF assms(1)] obtain a b c where
    f: "cur_facets st' = cur_facets st @ [(recalculate_normal a b c, a, b, c)]" and
    m: "cur_min_vertex st' =
          track_ascii_minimum c (track_ascii_minimum b (track_ascii_minimum a (cur_min_vertex st)))"
    by blast
  have "all_vertices (cur_facets st') = ((all_vertices (cur_facets st) @ [a]) @ [b]) @ [c]"
    by (simp add: f all_vertices_def)
  with tracked_step [OF tracked_step [OF tracked_step [OF assms(2)]], of c b a] m
  show ?thesis
    by simp
qed

lemma ascii_loop_tracked:
  "ascii_loop n lines st = Inr st' \<Longrightarrow>
     tracked (cur_min_vertex st) (all_vertices (cur_facets st)) \<Longrightarrow>
     tracked (cur_min_vertex st') (all_vertices (cur_facets st'))"
proof (induction n arbitrary: st)
  case 0
  then show ?case by simp
next
  case (Suc n)
  then show ?case
    by (auto split: sum.splits dest: read_facet_block_tracked)
qed

lemma read_ascii_tracked:
  assumes "read_ascii lines = Inr (solid_name, endsolid_name, st)"
  shows "tracked (cur_min_vertex st) (all_vertices (cur_facets st))"
proof -
  from assms obtain st0 st1 st2 where
    a: "read_solid lines (init_line lines init_ascii) = Inr (solid_name, st0)" and
    b: "ascii_loop (total_facet_count lines) lines st0 = Inr st1" and
    c: "read_endsolid lines solid_name st1 = Inr (endsolid_name, st2)" and
    d: "st = go_to_next_line lines st2"
    by (auto simp: read_ascii_def split: sum.splits prod.splits)
  have "cur_facets (init_line lines init_ascii) = []"
    and "cur_min_vertex (init_line lines init_ascii) = [None, None, None]"
    by (simp_all add: init_line_def skip_empty_lines_facets init_ascii_def)
  with a have "cur_facets st0 = []" and "cur_min_vertex st0 = [None, None, None]"
    by (auto simp: read_solid_def go_to_next_line_facets warn_def split: sum.splits if_splits)
  then have "tracked (cur_min_vertex st0) (all_vertices (cur_facets st0))"
    by (simp add: all_vertices_def tracked_init)
  from ascii_loop_tracked [OF b this]
  have "tracked (cur_min_vertex st1) (all_vertices (cur_facets st1))" .
  moreover from c have "cur_facets st2 = cur_facets st1" and "cur_min_vertex st2 = cur_min_vertex st1"
    by (auto simp: read_endsolid_def Let_def warn_def split: sum.splits if_splits)
  ultimately show ?thesis
    by (simp add: d go_to_next_line_facets)
qed

lemma ascii_loop_no_minimum:
  assumes "read_ascii lines = Inr (solid_name, endsolid_name, st)"
    and "j < 3" and "cur_min_vertex st ! j = None"
  shows "cur_facets st = []"
proof -
  from read_ascii_tracked [OF assms(1)] assms(2) have
    "case cur_min_vertex st ! j of
       None \<Rightarrow> all_vertices (cur_facets st) = []
     | Some m \<Rightarrow> (\<forall>v \<in> set (all_vertices (cur_facets st)). m \<le> coord v j)
                 \<and> (\<exists>v \<in> set (all_vertices (cur_facets st)). coord v j = m)"
    by (simp add: tracked_def)
  with assms(3) have "all_vertices (cur_facets st) = []"
    by simp
  then show ?thesis
    by (cases "cur_facets st") (auto simp: all_vertices_def)
qed

lemma dict_append_keys: "fst ` set (dict_append d k v) = insert k (fst ` set d)"
  by (induction d k v rule: dict_append.induct) auto

lemma track_edge_keys:
  "fst ` set (foldl (\<lambda>d edge. dict_append d edge f) d es) = fst ` set d \<union> set es"
  by (induction es arbitrary: d) (auto simp: dict_append_keys)

lemma track_edges_keys_aux:
  "fst ` set (foldl (\<lambda>edge_to_facets facet.
                      foldl (\<lambda>d edge. dict_append d edge facet) edge_to_facets (facet_edges facet))
                d fs)
     = fst ` set d \<union> (\<Union>f \<in> set fs. set (facet_edges f))"
proof (induction fs arbitrary: d)
  case Nil
  then show ?case by simp
next
  case (Cons f fs)
  show ?case
    by (simp only: foldl_Cons Cons.IH track_edge_keys) auto
qed

lemma track_edges_keys:
  "fst ` set (track_edges fs) = (\<Union>f \<in> set fs. set (facet_edges f))"
  by (simp add: track_edges_def track_edges_keys_aux)

lemma find_open_edges_subset:
  "set (find_open_edges d) \<subseteq> fst ` set d"
  by (auto simp: find_open_edges_def)

lemma sorted_pair_ends: "fst (sorted_pair a b) \<in> {a, b} \<and> snd (sorted_pair a b) \<in> {a, b}"
  by (simp add: sorted_pair_def)

lemma facet_edges_ends:
  assumes "e \<in> set (facet_edges f)"
  shows "fst e \<in> set (facet_vertices f) \<and> snd e \<in> set (facet_vertices f)"
proof -
  obtain n a b c where f: "f = (n, a, b, c)"
    by (cases f) auto
  from assms have "e = sorted_pair a b \<or> e = sorted_pair b c \<or> e = sorted_pair c a"
    by (simp add: f)
  with sorted_pair_ends [of a b] sorted_pair_ends [of b c] sorted_pair_ends [of c a]
  show ?thesis
    by (auto simp: f)
qed

lemma open_edges_ends:
  assumes "e \<in> set (find_open_edges (track_edges fs))"
  shows "fst e \<in> set (all_vertices fs) \<and> snd e \<in> set (all_vertices fs)"
proof -
  from assms find_open_edges_subset have "e \<in> fst ` set (track_edges fs)"
    by blast
  then obtain f where "f \<in> set fs" and "e \<in> set (facet_edges f)"
    by (auto simp: track_edges_keys)
  with facet_edges_ends [of e f] show ?thesis
    by (auto simp: all_vertices_def)
qed

lemma close_edge_vertices:
  assumes "close_edge e es = Some g"
  shows "set (facet_vertices g) \<subseteq> {fst e, snd e} \<union> (\<Union>other \<in> set es. {fst other, snd other})"
  using assms
  by (induction es) (auto simp: Let_def split: if_splits)

lemma close_open_edges_vertices:
  assumes "g \<in> set (close_open_edges (find_open_edges (track_edges fs)))"
  shows "set (facet_vertices g) \<subseteq> set (all_vertices fs)"
proof -
  let ?oes = "find_open_edges (track_edges fs)"
  from assms obtain e where e: "e \<in> set ?oes" and c: "close_edge e ?oes = Some g"
    by (auto simp: close_open_edges_def split: option.splits)
  from close_edge_vertices [OF c] have
    "set (facet_vertices g) \<subseteq> {fst e, snd e} \<union> (\<Union>other \<in> set ?oes. {fst other, snd other})" .
  moreover have "{fst e, snd e} \<subseteq> set (all_vertices fs)"
    using open_edges_ends [OF e] by simp
  moreover have "(\<Union>other \<in> set ?oes. {fst other, snd other}) \<subseteq> set (all_vertices fs)"
    using open_edges_ends by blast
  ultimately show ?thesis
    by blast
qed

lemma make_model_manifold_vertices:
  "set (all_vertices (make_model_manifold fs)) = set (all_vertices fs)"
proof
  show "set (all_vertices (make_model_manifold fs)) \<subseteq> set (all_vertices fs)"
  proof
    fix v
    assume "v \<in> set (all_vertices (make_model_manifold fs))"
    then obtain g where g: "g \<in> set (make_model_manifold fs)" and v: "v \<in> set (facet_vertices g)"
      by (auto simp: all_vertices_def)
    from g have "g \<in> set fs \<or> g \<in> set (close_open_edges (find_open_edges (track_edges fs)))"
      by (auto simp: make_model_manifold_def Let_def)
    then show "v \<in> set (all_vertices fs)"
    proof
      assume "g \<in> set fs"
      with v show ?thesis
        by (auto simp: all_vertices_def)
    next
      assume "g \<in> set (close_open_edges (find_open_edges (track_edges fs)))"
      from close_open_edges_vertices [OF this] v show ?thesis
        by blast
    qed
  qed
next
  show "set (all_vertices fs) \<subseteq> set (all_vertices (make_model_manifold fs))"
    by (auto simp: all_vertices_def make_model_manifold_def Let_def)
qed

lemma coord_translate: "j < 3 \<Longrightarrow> coord (translate v d) j = coord v j + coord d j"
  by (cases v; cases d) (auto simp: three_cases)

lemma coord_adapt_vertex:
  "j < 3 \<Longrightarrow> coord (adapt_vertex cfg mv) j = adapt_axis cfg (mv ! j) (coord (new_min_pos cfg) j)"
  by (auto simp: adapt_vertex_def three_cases)

lemma written_vertices:
  assumes "\<forall>g \<in> set fs. recalculated g"
  shows "set (all_vertices (map (write_facet d) fs)) = (\<lambda>v. translate v d) ` set (all_vertices fs)"
proof -
  have "set (facet_vertices (write_facet d g)) = (\<lambda>v. translate v d) ` set (facet_vertices g)"
    if "g \<in> set fs" for g
  proof -
    obtain n a b c where g: "g = (n, a, b, c)"
      by (cases g) auto
    from that assms have "n = recalculate_normal a b c"
      by (auto simp: g recalculated_def)
    then have "write_facet d g = (n, translate a d, translate b d, translate c d)"
      unfolding g by (simp only: write_facet_recalculated)
    then show ?thesis
      by (simp add: g)
  qed
  then show ?thesis
    by (auto simp: all_vertices_def)
qed

lemma ascii_written_vertices:
  assumes "read_ascii lines = Inr (solid_name, endsolid_name, st)"
  shows "set (all_vertices (ascii_written cfg st)) =
           (\<lambda>v. translate v (adapt_vertex cfg (cur_min_vertex st))) ` set (all_vertices (cur_facets st))"
proof -
  from read_ascii_recalculated [OF assms] have
    "\<forall>g \<in> set (make_model_manifold (cur_facets st)). recalculated g"
    using make_model_manifold_recalculated by blast
  from written_vertices [OF this] show ?thesis
    by (simp add: ascii_written_def make_model_manifold_vertices)
qed

text \<open>
  The ASCII path repositions as C1 says. When at least one facet was read, the minimum the
  reader tracked on an axis is the smallest coordinate of the input on that axis. If
  force-repos is on or that minimum is below the threshold, every written coordinate on
  the axis is at least the threshold, and one equals it; otherwise the offset on the axis
  is 0 and the smallest written coordinate is the input's. The sums are exact here; on
  floats the addition of the offset rounds.
\<close>

lemma ascii_repositioning:
  assumes rd: "read_ascii lines = Inr (solid_name, endsolid_name, st)"
    and j: "j < 3" and ne: "cur_facets st \<noteq> []"
  shows "\<exists>m. cur_min_vertex st ! j = Some m
           \<and> (\<forall>v \<in> set (all_vertices (cur_facets st)). m \<le> coord v j)
           \<and> (\<exists>v \<in> set (all_vertices (cur_facets st)). coord v j = m)
           \<and> (force_repositioning cfg \<or> m < coord (new_min_pos cfg) j \<longrightarrow>
                (\<forall>v \<in> set (all_vertices (ascii_written cfg st)).
                   coord (new_min_pos cfg) j \<le> coord v j)
                \<and> (\<exists>v \<in> set (all_vertices (ascii_written cfg st)).
                     coord v j = coord (new_min_pos cfg) j))
           \<and> (\<not> force_repositioning cfg \<and> \<not> m < coord (new_min_pos cfg) j \<longrightarrow>
                coord (adapt_vertex cfg (cur_min_vertex st)) j = 0
                \<and> (\<forall>v \<in> set (all_vertices (ascii_written cfg st)). m \<le> coord v j)
                \<and> (\<exists>v \<in> set (all_vertices (ascii_written cfg st)). coord v j = m))"
proof -
  let ?vs = "all_vertices (cur_facets st)"
  let ?d = "adapt_vertex cfg (cur_min_vertex st)"
  let ?t = "coord (new_min_pos cfg) j"
  from ne have vne: "?vs \<noteq> []"
    by (cases "cur_facets st") (auto simp: all_vertices_def)
  from read_ascii_tracked [OF rd] j have
    "case cur_min_vertex st ! j of
       None \<Rightarrow> ?vs = []
     | Some m \<Rightarrow> (\<forall>v \<in> set ?vs. m \<le> coord v j) \<and> (\<exists>v \<in> set ?vs. coord v j = m)"
    by (simp add: tracked_def)
  with vne obtain m where m: "cur_min_vertex st ! j = Some m"
    and lo: "\<forall>v \<in> set ?vs. m \<le> coord v j" and at: "\<exists>v \<in> set ?vs. coord v j = m"
    by (cases "cur_min_vertex st ! j") auto
  have w: "set (all_vertices (ascii_written cfg st)) = (\<lambda>v. translate v ?d) ` set ?vs"
    by (rule ascii_written_vertices [OF rd])
  have dj: "coord ?d j = (if force_repositioning cfg \<or> m < ?t then - m + ?t else 0)"
    using j by (simp add: coord_adapt_vertex m adapt_axis_def)
  have moved: "coord (translate v ?d) j = coord v j + coord ?d j" for v
    using j by (rule coord_translate)
  have "force_repositioning cfg \<or> m < ?t \<longrightarrow>
          (\<forall>v \<in> set (all_vertices (ascii_written cfg st)). ?t \<le> coord v j)
          \<and> (\<exists>v \<in> set (all_vertices (ascii_written cfg st)). coord v j = ?t)"
  proof
    assume c: "force_repositioning cfg \<or> m < ?t"
    then have d: "coord ?d j = - m + ?t"
      by (simp add: dj)
    have "\<forall>v \<in> set ?vs. ?t \<le> coord (translate v ?d) j"
      using lo by (simp add: moved d)
    moreover from at obtain u where "u \<in> set ?vs" and "coord u j = m"
      by blast
    then have "\<exists>v \<in> set ?vs. coord (translate v ?d) j = ?t"
      by (auto simp: moved d intro!: bexI [of _ u])
    ultimately show "(\<forall>v \<in> set (all_vertices (ascii_written cfg st)). ?t \<le> coord v j)
          \<and> (\<exists>v \<in> set (all_vertices (ascii_written cfg st)). coord v j = ?t)"
      by (simp add: w)
  qed
  moreover have "\<not> force_repositioning cfg \<and> \<not> m < ?t \<longrightarrow>
          coord ?d j = 0
          \<and> (\<forall>v \<in> set (all_vertices (ascii_written cfg st)). m \<le> coord v j)
          \<and> (\<exists>v \<in> set (all_vertices (ascii_written cfg st)). coord v j = m)"
  proof
    assume c: "\<not> force_repositioning cfg \<and> \<not> m < ?t"
    then have d: "coord ?d j = 0"
      by (simp add: dj)
    with lo at show "coord ?d j = 0
          \<and> (\<forall>v \<in> set (all_vertices (ascii_written cfg st)). m \<le> coord v j)
          \<and> (\<exists>v \<in> set (all_vertices (ascii_written cfg st)). coord v j = m)"
      by (simp add: w moved)
  qed
  ultimately show ?thesis
    using m lo at by blast
qed

lemma track_binary_minimum_value:
  assumes "length mv = 3"
  shows "fst (track_binary_minimum v1 v2 v3 (mv, i)) =
     [if below_minimum (coord v1 0) (mv ! 0) then Some (coord v1 0) else mv ! 0,
      if below_minimum (coord v2 1) (mv ! 1) then Some (coord v2 1) else mv ! 1,
      if below_minimum (coord v3 2) (mv ! 2) then Some (coord v3 2) else mv ! 2]"
proof -
  obtain a b c where mv: "mv = [a, b, c]"
    using length3 [OF assms] by blast
  show ?thesis
    by (cases v1; cases v2; cases v3)
       (simp add: mv track_binary_minimum_def below_minimum_def split: option.splits)
qed

lemma binary_step_minimum:
  assumes "binary_step i t st = Inr st'" and "length (cur_min_vertex st) = 3"
  shows "length (cur_min_vertex st') = 3 \<and> (\<forall>j < 3. cur_min_vertex st' ! j \<noteq> None)"
proof -
  obtain pn a b c attr where t: "t = (pn, a, b, c, attr)"
    by (cases t) auto
  obtain mv k where m: "track_binary_minimum a b c (cur_min_vertex st, i) = (mv, k)"
    by (cases "track_binary_minimum a b c (cur_min_vertex st, i)") auto
  from assms(1) have "cur_min_vertex st' = mv"
    by (auto simp: t m Let_def warn_def split: if_splits)
  moreover from track_binary_minimum_value [OF assms(2), of a b c i] m have
    "mv = [if below_minimum (coord a 0) (cur_min_vertex st ! 0) then Some (coord a 0)
           else cur_min_vertex st ! 0,
           if below_minimum (coord b 1) (cur_min_vertex st ! 1) then Some (coord b 1)
           else cur_min_vertex st ! 1,
           if below_minimum (coord c 2) (cur_min_vertex st ! 2) then Some (coord c 2)
           else cur_min_vertex st ! 2]"
    by simp
  ultimately show ?thesis
    by (auto simp: three_cases below_minimum_def split: option.splits simp del: coord.simps)
qed

lemma binary_loop_minimum:
  "binary_loop i n ts st = Inr st' \<Longrightarrow> length (cur_min_vertex st) = 3 \<Longrightarrow>
     (cur_facets st \<noteq> [] \<longrightarrow> (\<forall>j < 3. cur_min_vertex st ! j \<noteq> None)) \<Longrightarrow>
     cur_facets st' \<noteq> [] \<longrightarrow> (\<forall>j < 3. cur_min_vertex st' ! j \<noteq> None)"
proof (induction i n ts st rule: binary_loop.induct)
  case (1 i rest st)
  then show ?case by simp
next
  case (2 i n st)
  then show ?case by simp
next
  case (3 i n t rest st)
  from "3.prems"(1) obtain st1 where s: "binary_step i t st = Inr st1"
    and l: "binary_loop (Suc i) n rest st1 = Inr st'"
    by (auto split: sum.splits)
  from binary_step_minimum [OF s "3.prems"(2)] "3.IH" [OF s l] show ?case
    by blast
qed

lemma binary_loop_no_minimum:
  assumes "binary_loop 0 n ts init_reader = Inr st" and "j < 3" and "cur_min_vertex st ! j = None"
  shows "cur_facets st = []"
  using binary_loop_minimum [OF assms(1)] assms(2,3)
  by (auto simp: init_reader_def)


section \<open>The manifold check counts edges\<close>

lemma count_edges_flat_aux:
  "foldl (\<lambda>edge_usage facet. foldl count_edge edge_usage (facet_edges facet)) d fs
     = foldl count_edge d (concat (map facet_edges fs))"
  by (induction fs arbitrary: d) simp_all

lemma count_edges_flat:
  "count_edges fs = foldl count_edge [] (concat (map facet_edges fs))"
  by (simp add: count_edges_def count_edges_flat_aux)

lemma count_edge_keys: "fst ` set (count_edge d k) = insert k (fst ` set d)"
  by (induction d k rule: count_edge.induct) auto

lemma count_edge_distinct: "distinct (map fst d) \<Longrightarrow> distinct (map fst (count_edge d k))"
  by (induction d k rule: count_edge.induct) (auto simp: count_edge_keys)

lemma count_edge_map_of:
  "map_of (count_edge d k) e =
     (if e = k then Some (case map_of d k of None \<Rightarrow> 1 | Some c \<Rightarrow> c + 1) else map_of d e)"
  by (induction d k rule: count_edge.induct) auto

lemma count_edge_fold:
  "distinct (map fst d) \<Longrightarrow>
     distinct (map fst (foldl count_edge d es))
     \<and> map_of (foldl count_edge d es) e =
         (case map_of d e of
            None \<Rightarrow> if count_list es e = 0 then None else Some (count_list es e)
          | Some c \<Rightarrow> Some (c + count_list es e))"
proof (induction es arbitrary: d)
  case Nil
  then show ?case
    by (simp split: option.splits)
next
  case (Cons k es)
  from Cons.IH [OF count_edge_distinct [OF Cons.prems], of k] show ?case
    by (auto simp: count_edge_map_of split: option.splits)
qed

text \<open>\<open>is_model_manifold\<close> holds exactly when every edge of the facets occurs twice among
  the edges of all facets.\<close>

lemma is_model_manifold_iff:
  "is_model_manifold fs \<longleftrightarrow>
     (\<forall>e \<in> set (concat (map facet_edges fs)).
        count_list (concat (map facet_edges fs)) e = 2)"
proof -
  let ?es = "concat (map facet_edges fs)"
  let ?d = "count_edges fs"
  have dist: "distinct (map fst ?d)"
    and look: "map_of ?d e = (if count_list ?es e = 0 then None else Some (count_list ?es e))" for e
    using count_edge_fold [of "[]" ?es e] by (simp_all add: count_edges_flat)
  have "is_model_manifold fs \<longleftrightarrow> (\<forall>(e, c) \<in> set ?d. c = 2)"
    by (auto simp: is_model_manifold_def Let_def filter_empty_conv)
  also have "\<dots> \<longleftrightarrow> (\<forall>e c. map_of ?d e = Some c \<longrightarrow> c = 2)"
    using dist by (auto simp: map_of_eq_Some_iff)
  also have "\<dots> \<longleftrightarrow> (\<forall>e. count_list ?es e \<noteq> 0 \<longrightarrow> count_list ?es e = 2)"
    by (auto simp: look)
  also have "\<dots> \<longleftrightarrow> (\<forall>e \<in> set ?es. count_list ?es e = 2)"
    by (metis count_list_0_iff)
  finally show ?thesis .
qed

lemma count_list_edges_mset:
  assumes "mset fs = mset gs"
  shows "count_list (concat (map facet_edges fs)) e = count_list (concat (map facet_edges gs)) e"
proof -
  have "mset (concat (map facet_edges hs)) = (\<Sum>f \<in># mset hs. mset (facet_edges f))" for hs
    by (induction hs) simp_all
  with assms have "mset (concat (map facet_edges fs)) = mset (concat (map facet_edges gs))"
    by simp
  then show ?thesis
    by (metis count_mset)
qed

text \<open>The check does not depend on the order of the facets, so it does not depend on the
  order in which Python lists the set of Step 4.\<close>

lemma is_model_manifold_mset:
  assumes "mset fs = mset gs"
  shows "is_model_manifold fs \<longleftrightarrow> is_model_manifold gs"
proof -
  from assms have "set (concat (map facet_edges fs)) = set (concat (map facet_edges gs))"
    by (metis mset_eq_setD set_concat set_map)
  with count_list_edges_mset [OF assms] show ?thesis
    by (simp add: is_model_manifold_iff)
qed

lemma repair_not_manifold_in_any_order:
  assumes "mset gs = mset (make_model_manifold tetrahedron_sides)"
  shows "\<not> is_model_manifold gs"
  using is_model_manifold_mset [OF assms] tetrahedron_usage
  by (simp add: is_model_manifold_def)


section \<open>The name the ASCII writer prints\<close>

lemma nameless_read:
  "read_ascii (read_lines nameless_lines) = Inr ([], ''id cube'', empty_scene_state)"
  by (simp add: nameless_lines_def empty_scene_state_def text_eval ascii_eval)

lemma named_once_read:
  "read_ascii (read_lines named_once_lines) = Inr (''cube'', [], empty_scene_state)"
  by (simp add: named_once_lines_def empty_scene_state_def text_eval ascii_eval)

lemma empty_scene_written: "ascii_written cfg empty_scene_state = []"
  by (simp add: ascii_written_def empty_scene_state_def repair_eval)

lemma resolve_name_cases:
  "resolve_name cfg solid_name endsolid_name =
     (if ignore_endsolid_name cfg then (if solid_name = [] then ''model'' else solid_name)
      else if solid_name = [] then (if endsolid_name = [] then ''model'' else endsolid_name)
      else if endsolid_name \<noteq> [] \<and> solid_name \<noteq> endsolid_name
           then solid_name @ '' | '' @ endsolid_name
      else solid_name)"
  by (simp add: resolve_name_def Let_def)

lemma read_ascii_solid_name:
  assumes "read_ascii lines = Inr (solid_name, endsolid_name, st)"
  shows "\<exists>line. get_current_line lines (init_line lines init_ascii) = Inr line
           \<and> startswith line ''solid''
           \<and> solid_name = (if search_name ''solid'' line then lstrip (drop 6 line) else [])"
proof -
  from assms obtain st0 where "read_solid lines (init_line lines init_ascii) = Inr (solid_name, st0)"
    by (auto simp: read_ascii_def split: sum.splits prod.splits)
  then show ?thesis
    by (auto simp: read_solid_def split: sum.splits if_splits)
qed

text \<open>
  How the written name is resolved from the two names the reader took. When the ASCII
  reader succeeds, the written file starts with \<^verbatim>\<open>solid\<close> and ends with \<^verbatim>\<open>endsolid\<close>,
  each followed by the same name. With the ignore-endsolid-name option it is the name of
  the \<^verbatim>\<open>solid\<close> line, or \<^verbatim>\<open>model\<close> when that is empty. Without the option it is the name
  taken from the \<^verbatim>\<open>endsolid\<close> line when the name of the \<^verbatim>\<open>solid\<close> line is empty
  (\<^verbatim>\<open>model\<close> when both are empty), the two joined by \<^verbatim>\<open> | \<close> when both are there and
  differ, and the name of the \<^verbatim>\<open>solid\<close> line otherwise. The name of the \<^verbatim>\<open>solid\<close> line is
  what follows \<^verbatim>\<open>solid \<close> on the first line that is not blank, and empty when nothing
  follows.
\<close>

lemma written_name_resolved:
  assumes "read_ascii (read_lines raw_lines) = Inr (solid_name, endsolid_name, st)"
  shows "(\<exists>body. clean_ascii_stl_file float_str cfg raw_lines path fs =
            (fs(path \<mapsto> TextFile
                  ([''solid '' @ resolve_name cfg solid_name endsolid_name] @ body
                   @ [''endsolid '' @ resolve_name cfg solid_name endsolid_name])),
             Inr (warning_count st)))
         \<and> (\<exists>line. get_current_line (read_lines raw_lines)
                       (init_line (read_lines raw_lines) init_ascii) = Inr line
                \<and> startswith line ''solid''
                \<and> solid_name = (if search_name ''solid'' line then lstrip (drop 6 line) else []))
         \<and> resolve_name cfg solid_name endsolid_name =
             (if ignore_endsolid_name cfg then (if solid_name = [] then ''model'' else solid_name)
              else if solid_name = [] then (if endsolid_name = [] then ''model'' else endsolid_name)
              else if endsolid_name \<noteq> [] \<and> solid_name \<noteq> endsolid_name
                   then solid_name @ '' | '' @ endsolid_name
              else solid_name)"
proof -
  have "clean_ascii_stl_file float_str cfg raw_lines path fs =
          (fs(path \<mapsto> TextFile
                ([''solid '' @ resolve_name cfg solid_name endsolid_name]
                 @ concat (map (facet_lines float_str (replicate (nat (indent_spaces cfg)) (CHR 0x20)))
                             (ascii_written cfg st))
                 @ [''endsolid '' @ resolve_name cfg solid_name endsolid_name])),
           Inr (warning_count st))"
    by (simp add: clean_ascii_stl_file_def assms fixed_lines_def Let_def)
  then have "\<exists>body. clean_ascii_stl_file float_str cfg raw_lines path fs =
            (fs(path \<mapsto> TextFile
                  ([''solid '' @ resolve_name cfg solid_name endsolid_name] @ body
                   @ [''endsolid '' @ resolve_name cfg solid_name endsolid_name])),
             Inr (warning_count st))"
    by blast
  with read_ascii_solid_name [OF assms] resolve_name_cases [of cfg solid_name endsolid_name]
  show ?thesis
    by blast
qed

lemma named_once_clean:
  "clean_ascii_stl_file float_str default_settings named_once_lines ''out.stl'' Map.empty =
     ([''out.stl'' \<mapsto> TextFile [''solid cube'', ''endsolid cube'']], Inr 1)"
  by (simp add: clean_ascii_stl_file_def named_once_read empty_scene_written fixed_lines_def
        resolve_name_cases)
     (simp add: default_settings_def empty_scene_state_def)

lemma written_name_resolved_example:
  "read_ascii (read_lines named_once_lines) = Inr (''cube'', [], empty_scene_state)
   \<and> clean_ascii_stl_file (\<lambda>x. []) default_settings named_once_lines ''out.stl'' Map.empty =
       ([''out.stl'' \<mapsto> TextFile [''solid cube'', ''endsolid cube'']], Inr 1)
   \<and> resolve_name default_settings ''cube'' [] = ''cube''"
  using written_name_resolved [OF named_once_read, of "\<lambda>x. []" default_settings "''out.stl''" Map.empty]
  by (simp add: named_once_read named_once_clean)

text \<open>
  With the option set, a file whose \<^verbatim>\<open>solid\<close> line has no name is written with the name
  \<^verbatim>\<open>model\<close>, not with the empty name of its \<^verbatim>\<open>solid\<close> line.
\<close>

lemma nameless_solid_written_as_model:
  "(case read_ascii (read_lines nameless_lines) of
      Inl e \<Rightarrow> False
    | Inr (solid_name, rest) \<Rightarrow> solid_name = [])
   \<and> ignore_endsolid_name ignoring_settings
   \<and> clean_ascii_stl_file (\<lambda>x. []) ignoring_settings nameless_lines ''out.stl'' Map.empty =
       ([''out.stl'' \<mapsto> TextFile [''solid model'', ''endsolid model'']], Inr 1)"
  by (simp add: clean_ascii_stl_file_def nameless_read empty_scene_written fixed_lines_def
        resolve_name_cases)
     (simp add: ignoring_settings_def default_settings_def empty_scene_state_def)

end
